theory Spec2Isabelle
  imports Main "HOL-Library.Log_Nat"
begin

section \<open>Values of the request body and of the stored documents\<close>

text \<open>
  The handlers read their input from a JSON request body and test it with the
  truthiness and null checks of JavaScript, so the fields are kept as JavaScript values.

  A number is an IEEE-754 double. Every finite double is an integer multiple of
  \<open>2^-1074\<close>: \<open>JNum n\<close> is the finite number with the integer value \<open>n\<close>, \<open>JFrac k\<close> the
  finite number \<open>k * 2^-1074\<close> that is not an integer, \<open>JNegZero\<close> the negative zero,
  \<open>JInf\<close> the two infinities (\<open>True\<close> for the positive one) and \<open>JNaN\<close> the not-a-number
  value. \<open>JDate\<close> is a Date object with its time value in milliseconds since the epoch
  (\<open>None\<close> for an Invalid Date). Arrays and nested objects are outside the development.
\<close>

datatype jsval =
    JUndefined
  | JNull
  | JBool bool
  | JNum int
  | JFrac int
  | JNegZero
  | JInf bool
  | JNaN
  | JStr string
  | JDate "int option"

text \<open>\<open>!x\<close> is \<open>\<not> truthy x\<close>; \<open>x == null\<close> is \<open>loose_null x\<close>.\<close>

fun truthy :: "jsval \<Rightarrow> bool" where
  "truthy JUndefined = False"
| "truthy JNull = False"
| "truthy (JBool b) = b"
| "truthy (JNum n) = (n \<noteq> 0)"
| "truthy (JFrac k) = (k \<noteq> 0)"
| "truthy JNegZero = False"
| "truthy (JInf s) = True"
| "truthy JNaN = False"
| "truthy (JStr s) = (s \<noteq> [])"
| "truthy (JDate t) = True"

fun loose_null :: "jsval \<Rightarrow> bool" where
  "loose_null JUndefined = True"
| "loose_null JNull = True"
| "loose_null v = False"

type_synonym oid = nat

type_synonym body = "string \<Rightarrow> jsval"

section \<open>The host: what the JavaScript runtime and the libraries compute\<close>

text \<open>
  The handlers call into the runtime, into \<open>bcryptjs\<close> and into \<open>mongoose\<close>. What these
  compute on strings is taken as a parameter:
  \<^item> \<open>dateParse s\<close>: the time value of \<open>new Date(s)\<close> for a string (\<open>None\<close>: Invalid Date);
  \<^item> \<open>localTZA t isUTC\<close>: the offset of the server's local time zone, in milliseconds;
  \<^item> \<open>stringToNumber s\<close>: the number \<open>Number(s)\<close> that a string converts to;
  \<^item> \<open>valueToString v\<close>: the string \<open>String(v)\<close> of a number or a Date object;
  \<^item> \<open>bcryptHash v rounds\<close>: the salted hash of \<open>bcrypt.hash(v, rounds)\<close>, the salt
    being drawn by the library (\<open>None\<close>: the call rejects, as it does for a value
    that is not a string);
  \<^item> \<open>castObjectId s\<close>: the document identifier that the string \<open>s\<close> denotes
    (\<open>None\<close>: the string is not an identifier, and the cast throws).
\<close>

record host =
  dateParse :: "string \<Rightarrow> int option"
  localTZA :: "int \<Rightarrow> bool \<Rightarrow> int"
  stringToNumber :: "string \<Rightarrow> jsval"
  valueToString :: "jsval \<Rightarrow> string"
  bcryptHash :: "jsval \<Rightarrow> nat \<Rightarrow> string option"
  castObjectId :: "string \<Rightarrow> oid option"

subsection \<open>Numbers: the subtraction operator\<close>

text \<open>
  A double has 53 significant bits. \<open>round53 k\<close> rounds the integer \<open>k\<close> to the nearest
  integer with at most 53 significant bits, a tie going to the one whose last kept bit
  is zero. Applied to a multiple of \<open>2^-1074\<close>, counted in that unit, it is the rounding
  of the exact result of an operation to a double (as long as the result does not
  overflow). An integer \<open>n\<close> below \<open>2^1024\<close> in absolute value is a double exactly when
  \<open>round53 n = n\<close>; the numbers of a JSON request body are doubles.
\<close>

definition round53 :: "int \<Rightarrow> int" where
  "round53 k =
     (if \<bar>k\<bar> < 2 ^ 53 then k
      else
        (let sh = nat (bitlen \<bar>k\<bar> - 53);
             q = \<bar>k\<bar> div 2 ^ sh;
             r = \<bar>k\<bar> mod 2 ^ sh;
             half = 2 ^ (sh - 1);
             q' = (if half < r \<or> (r = half \<and> odd q) then q + 1 else q)
         in sgn k * (q' * 2 ^ sh)))"

text \<open>A finite number in units of \<open>2^-1074\<close>, and back.\<close>

definition ulps :: int where
  "ulps = 2 ^ 1074"

fun scaled :: "jsval \<Rightarrow> int" where
  "scaled (JNum n) = n * ulps"
| "scaled (JFrac k) = k"
| "scaled v = 0"

definition of_scaled :: "int \<Rightarrow> jsval" where
  "of_scaled k =
     (if \<bar>k\<bar> \<ge> 2 ^ 2098 then JInf (0 < k)
      else if k mod ulps = 0 then JNum (k div ulps)
      else JFrac k)"

text \<open>
  \<open>x - y\<close> on numbers: NaN is contagious, the infinities absorb, and the exact difference
  of two finite numbers is rounded to a double; a difference that overflows is an
  infinity. A zero difference is the positive zero, except for \<open>-0 - 0\<close>.
\<close>

definition num_sub :: "jsval \<Rightarrow> jsval \<Rightarrow> jsval" where
  "num_sub x y =
     (if x = JNaN \<or> y = JNaN then JNaN
      else
        (case x of
           JInf s \<Rightarrow> (if y = JInf s then JNaN else JInf s)
         | _ \<Rightarrow>
            (case y of
               JInf s \<Rightarrow> JInf (\<not> s)
             | _ \<Rightarrow>
                (let k = scaled x - scaled y in
                 if k = 0 then (if x = JNegZero \<and> y \<noteq> JNegZero then JNegZero else JNum 0)
                 else of_scaled (round53 k)))))"

text \<open>The values that are numbers.\<close>

fun is_number :: "jsval \<Rightarrow> bool" where
  "is_number (JNum n) = True"
| "is_number (JFrac k) = True"
| "is_number JNegZero = True"
| "is_number (JInf s) = True"
| "is_number JNaN = True"
| "is_number v = False"

text \<open>The double nearest to an integer.\<close>

definition int_number :: "int \<Rightarrow> jsval" where
  "int_number n = (let r = round53 n in if \<bar>r\<bar> \<ge> 2 ^ 1024 then JInf (0 < r) else JNum r)"

text \<open>\<open>ToNumber\<close>, and \<open>a - b\<close> on any two values: both operands are converted first.\<close>

fun ToNumber :: "host \<Rightarrow> jsval \<Rightarrow> jsval" where
  "ToNumber h JUndefined = JNaN"
| "ToNumber h JNull = JNum 0"
| "ToNumber h (JBool b) = JNum (if b then 1 else 0)"
| "ToNumber h (JStr s) = stringToNumber h s"
| "ToNumber h (JDate t) = (case t of None \<Rightarrow> JNaN | Some x \<Rightarrow> JNum x)"
| "ToNumber h v = v"

definition js_sub :: "host \<Rightarrow> jsval \<Rightarrow> jsval \<Rightarrow> jsval" where
  "js_sub h a b = num_sub (ToNumber h a) (ToNumber h b)"

subsection \<open>Dates: the calendar arithmetic of Date objects\<close>

definition msPerDay :: int where
  "msPerDay = 86400000"

definition Day :: "int \<Rightarrow> int" where
  "Day t = t div msPerDay"

definition TimeWithinDay :: "int \<Rightarrow> int" where
  "TimeWithinDay t = t mod msPerDay"

definition DaysInYear :: "int \<Rightarrow> int" where
  "DaysInYear y =
     (if y mod 4 \<noteq> 0 then 365
      else if y mod 100 \<noteq> 0 then 366
      else if y mod 400 \<noteq> 0 then 365
      else 366)"

definition DayFromYear :: "int \<Rightarrow> int" where
  "DayFromYear y =
     365 * (y - 1970) + (y - 1969) div 4 - (y - 1901) div 100 + (y - 1601) div 400"

text \<open>
  The year of a time value is the largest \<open>y\<close> whose first day is not after it. It is
  computed from an estimate that is off by at most one year.
\<close>

definition YearFromDay :: "int \<Rightarrow> int" where
  "YearFromDay d =
     (let y = 1970 + (400 * d) div 146097 in
      if d < DayFromYear y then y - 1
      else if DayFromYear (y + 1) \<le> d then y + 1
      else y)"

definition YearFromTime :: "int \<Rightarrow> int" where
  "YearFromTime t = YearFromDay (Day t)"

definition InLeapYear :: "int \<Rightarrow> int" where
  "InLeapYear t = (if DaysInYear (YearFromTime t) = 366 then 1 else 0)"

definition DayWithinYear :: "int \<Rightarrow> int" where
  "DayWithinYear t = Day t - DayFromYear (YearFromTime t)"

text \<open>The day of the year on which month \<open>m\<close> (0 to 11) starts; \<open>l\<close> is 1 in a leap year.\<close>

definition MonthStart :: "int \<Rightarrow> int \<Rightarrow> int" where
  "MonthStart l m =
     (if m = 0 then 0
      else if m = 1 then 31
      else if m = 2 then 59 + l
      else if m = 3 then 90 + l
      else if m = 4 then 120 + l
      else if m = 5 then 151 + l
      else if m = 6 then 181 + l
      else if m = 7 then 212 + l
      else if m = 8 then 243 + l
      else if m = 9 then 273 + l
      else if m = 10 then 304 + l
      else if m = 11 then 334 + l
      else 365 + l)"

definition MonthFromTime :: "int \<Rightarrow> int" where
  "MonthFromTime t =
     (let d = DayWithinYear t; l = InLeapYear t in
      if d < 31 then 0
      else if d < 59 + l then 1
      else if d < 90 + l then 2
      else if d < 120 + l then 3
      else if d < 151 + l then 4
      else if d < 181 + l then 5
      else if d < 212 + l then 6
      else if d < 243 + l then 7
      else if d < 273 + l then 8
      else if d < 304 + l then 9
      else if d < 334 + l then 10
      else 11)"

definition DateFromTime :: "int \<Rightarrow> int" where
  "DateFromTime t =
     DayWithinYear t - MonthStart (InLeapYear t) (MonthFromTime t) + 1"

text \<open>
  \<open>MakeDay\<close> takes any month and any day of the month: a month outside 0 to 11 carries
  into the year, and a day beyond the end of the month runs on into the following month.
\<close>

definition MakeDay :: "int \<Rightarrow> int \<Rightarrow> int \<Rightarrow> int" where
  "MakeDay year month date =
     (let ym = year + month div 12;
          mn = month mod 12;
          l = (if DaysInYear ym = 366 then 1 else 0)
      in DayFromYear ym + MonthStart l mn + date - 1)"

definition MakeDate :: "int \<Rightarrow> int \<Rightarrow> int" where
  "MakeDate day time = day * msPerDay + time"

definition TimeClip :: "int \<Rightarrow> int option" where
  "TimeClip t = (if \<bar>t\<bar> > 8640000000000000 then None else Some t)"

definition LocalTime :: "host \<Rightarrow> int \<Rightarrow> int" where
  "LocalTime h t = t + localTZA h t True"

definition UTC :: "host \<Rightarrow> int \<Rightarrow> int" where
  "UTC h t = t - localTZA h t False"

text \<open>
  \<open>new Date(v)\<close>, as the time value of the new object: a string is parsed, any other
  value is converted to a number, which is cut to an integer and to the range of time
  values.
\<close>

fun new_Date :: "host \<Rightarrow> jsval \<Rightarrow> int option" where
  "new_Date h JUndefined = None"
| "new_Date h JNull = TimeClip 0"
| "new_Date h (JBool b) = TimeClip (if b then 1 else 0)"
| "new_Date h (JNum n) = TimeClip n"
| "new_Date h (JFrac k) = TimeClip (sgn k * (\<bar>k\<bar> div ulps))"
| "new_Date h JNegZero = TimeClip 0"
| "new_Date h (JInf s) = None"
| "new_Date h JNaN = None"
| "new_Date h (JStr s) = (case dateParse h s of None \<Rightarrow> None | Some t \<Rightarrow> TimeClip t)"
| "new_Date h (JDate t) = t"

text \<open>\<open>d.getMonth()\<close> and \<open>d.setMonth(m)\<close> on a Date object with time value \<open>tv\<close>.\<close>

definition getMonth :: "host \<Rightarrow> int option \<Rightarrow> int option" where
  "getMonth h tv =
     (case tv of None \<Rightarrow> None | Some t \<Rightarrow> Some (MonthFromTime (LocalTime h t)))"

definition setMonth :: "host \<Rightarrow> int option \<Rightarrow> int option \<Rightarrow> int option" where
  "setMonth h tv month =
     (case tv of
        None \<Rightarrow> None
      | Some t0 \<Rightarrow>
         (case month of
            None \<Rightarrow> None
          | Some m \<Rightarrow>
             (let t = LocalTime h t0;
                  newDate = MakeDate (MakeDay (YearFromTime t) m (DateFromTime t))
                                     (TimeWithinDay t)
              in TimeClip (UTC h newDate))))"

text \<open>
  The two statements
  \<^verbatim>\<open>const nextPayment = new Date(x); nextPayment.setMonth(nextPayment.getMonth() + 1);\<close>
  that both files use to derive the next payment date.
\<close>

definition nextPayment :: "host \<Rightarrow> jsval \<Rightarrow> jsval" where
  "nextPayment h x =
     (let d = new_Date h x in
      JDate (setMonth h d (map_option (\<lambda>m. m + 1) (getMonth h d))))"

section \<open>The document store\<close>

text \<open>
  Two collections, as the schemas of both files declare them. \<open>Server.js\<close> names the
  vendor's display name \<open>vendorname\<close> and has a \<open>restaurant\<close> field; the second file
  (\<open>src/unnamed/part_000\<close>) names it \<open>name\<close> and has no restaurant, which stays
  undefined there. The identifiers are opaque; \<open>next_oid\<close> is the identifier given to
  the next new document. The database itself is taken to work: a look-up and the write
  of a valid document do not fail. Vendor documents are kept as the register handlers
  build them.
\<close>

record vendor =
  vendor_id :: oid
  vendorname :: jsval
  restaurant :: jsval
  email :: jsval
  password :: jsval

record student =
  student_id :: oid
  name :: jsval
  phone :: jsval
  meals :: jsval
  totalAmount :: jsval
  paidAmount :: jsval
  pendingAmount :: jsval
  startDate :: jsval
  endDate :: jsval
  nextPaymentDate :: jsval
  vendorId :: oid

record db =
  vendors :: "vendor list"
  students :: "student list"
  next_oid :: oid

text \<open>\<open>Vendor.findOne({ email })\<close>\<close>

definition Vendor_findOne :: "db \<Rightarrow> jsval \<Rightarrow> vendor option" where
  "Vendor_findOne st e = find (\<lambda>v. email v = e) (vendors st)"

text \<open>\<open>new Vendor({...})\<close> followed by \<open>save()\<close>\<close>

definition Vendor_create :: "db \<Rightarrow> jsval \<Rightarrow> jsval \<Rightarrow> jsval \<Rightarrow> jsval \<Rightarrow> db" where
  "Vendor_create st n r e p =
     st\<lparr>vendors := vendors st @
            [\<lparr>vendor_id = next_oid st, vendorname = n, restaurant = r, email = e,
              password = p\<rparr>],
        next_oid := next_oid st + 1\<rparr>"

text \<open>\<open>Student.findOne({ _id: id, vendorId: req.user.id })\<close>\<close>

definition Student_findOne :: "db \<Rightarrow> oid \<Rightarrow> oid \<Rightarrow> student option" where
  "Student_findOne st i uid =
     find (\<lambda>s. student_id s = i \<and> vendorId s = uid) (students st)"

text \<open>\<open>Student.find({ vendorId: req.user.id })\<close>\<close>

definition Student_find :: "db \<Rightarrow> oid \<Rightarrow> student list" where
  "Student_find st uid = filter (\<lambda>s. vendorId s = uid) (students st)"

text \<open>\<open>Student.findOneAndDelete({ _id: id, vendorId: req.user.id })\<close>\<close>

definition Student_findOneAndDelete :: "db \<Rightarrow> oid \<Rightarrow> oid \<Rightarrow> student option \<times> db" where
  "Student_findOneAndDelete st i uid =
     (case Student_findOne st i uid of
        None \<Rightarrow> (None, st)
      | Some s \<Rightarrow> (Some s, st\<lparr>students := remove1 s (students st)\<rparr>))"

subsection \<open>Student documents and the schema\<close>

text \<open>
  A value assigned to a path of a student document is cast to the type that the schema
  declares for the path. \<open>String\<close> (name, phone, meals): undefined, null and strings stay,
  other values become their string. \<open>Number\<close> (the three amounts): undefined and null
  stay, the empty string becomes null, a string or a boolean becomes its number, and
  NaN cannot be cast. \<open>Date\<close> (the three dates): the handlers assign nothing but Date
  objects, and an Invalid Date cannot be cast.
\<close>

definition castString :: "host \<Rightarrow> jsval \<Rightarrow> jsval option" where
  "castString h v =
     (case v of
        JUndefined \<Rightarrow> Some v
      | JNull \<Rightarrow> Some v
      | JStr s \<Rightarrow> Some v
      | JBool b \<Rightarrow> Some (JStr (if b then ''true'' else ''false''))
      | _ \<Rightarrow> Some (JStr (valueToString h v)))"

definition castNumber :: "host \<Rightarrow> jsval \<Rightarrow> jsval option" where
  "castNumber h v =
     (case v of
        JUndefined \<Rightarrow> Some v
      | JNull \<Rightarrow> Some v
      | JStr s \<Rightarrow>
          (if s = [] then Some JNull
           else if stringToNumber h s = JNaN then None
           else Some (stringToNumber h s))
      | JBool b \<Rightarrow> Some (JNum (if b then 1 else 0))
      | JNaN \<Rightarrow> None
      | JDate t \<Rightarrow> (case t of None \<Rightarrow> None | Some x \<Rightarrow> Some (JNum x))
      | _ \<Rightarrow> Some v)"

definition castDate :: "jsval \<Rightarrow> jsval option" where
  "castDate v = (case v of JDate None \<Rightarrow> None | _ \<Rightarrow> Some v)"

definition cast_path :: "host \<Rightarrow> string \<Rightarrow> jsval \<Rightarrow> jsval option" where
  "cast_path h f v =
     (if f = ''name'' \<or> f = ''phone'' \<or> f = ''meals'' then castString h v
      else if f = ''totalAmount'' \<or> f = ''paidAmount'' \<or> f = ''pendingAmount''
        then castNumber h v
      else if f = ''startDate'' \<or> f = ''endDate'' \<or> f = ''nextPaymentDate''
        then castDate v
      else Some v)"

text \<open>\<open>set_field f v s\<close> puts the value \<open>v\<close> at the path \<open>f\<close> of the document.\<close>

definition set_field :: "string \<Rightarrow> jsval \<Rightarrow> student \<Rightarrow> student" where
  "set_field f v s =
     (if f = ''name'' then s\<lparr>name := v\<rparr>
      else if f = ''phone'' then s\<lparr>phone := v\<rparr>
      else if f = ''meals'' then s\<lparr>meals := v\<rparr>
      else if f = ''startDate'' then s\<lparr>startDate := v\<rparr>
      else if f = ''endDate'' then s\<lparr>endDate := v\<rparr>
      else if f = ''totalAmount'' then s\<lparr>totalAmount := v\<rparr>
      else if f = ''paidAmount'' then s\<lparr>paidAmount := v\<rparr>
      else if f = ''pendingAmount'' then s\<lparr>pendingAmount := v\<rparr>
      else if f = ''nextPaymentDate'' then s\<lparr>nextPaymentDate := v\<rparr>
      else s)"

text \<open>
  A document in the hands of a handler is the record with a flag that tells whether
  every assignment so far could be cast. The assignment \<open>doc[f] = v\<close> casts \<open>v\<close>; a value
  that cannot be cast is not assigned and makes the document invalid.
\<close>

type_synonym doc = "student \<times> bool"

definition assign :: "host \<Rightarrow> string \<Rightarrow> jsval \<Rightarrow> doc \<Rightarrow> doc" where
  "assign h f v d =
     (case cast_path h f v of
        None \<Rightarrow> (fst d, False)
      | Some v' \<Rightarrow> (set_field f v' (fst d), snd d))"

text \<open>
  \<open>save()\<close> of a new document, and of a document that was read from the store. An
  invalid document is not saved: \<open>save()\<close> throws (\<open>None\<close>), and the handler's \<open>catch\<close>
  answers.
\<close>

definition Student_insert :: "db \<Rightarrow> doc \<Rightarrow> db option" where
  "Student_insert st d =
     (if snd d
      then Some (st\<lparr>students := students st @ [fst d], next_oid := next_oid st + 1\<rparr>)
      else None)"

definition Student_save :: "db \<Rightarrow> doc \<Rightarrow> db option" where
  "Student_save st d =
     (if snd d
      then Some (st\<lparr>students :=
                    map (\<lambda>x. if student_id x = student_id (fst d) then fst d else x)
                        (students st)\<rparr>)
      else None)"

section \<open>Responses\<close>

text \<open>
  A response is the HTTP status with the body sent: \<open>Msg k m\<close> is the JSON object with
  the one key \<open>k\<close>, \<open>StudentReply m s\<close> the object with a message and a student,
  \<open>StudentList\<close> the array of students. The check-mark symbols that open some of the
  messages of \<open>Server.js\<close> are left out of the message strings.
\<close>

datatype reply =
    Msg string string
  | StudentReply string student
  | StudentList "student list"

type_synonym response = "nat \<times> reply"

section \<open>The handlers of \<open>Server.js\<close>\<close>

text \<open>
  Each handler takes the store, the identity that the token check left in \<open>req.user.id\<close>
  (for the routes behind \<open>authenticateToken\<close>), the route parameter \<open>:id\<close> as the string
  it is, and the request body, and returns the response with the store after the
  request. Where a call of the handler throws, the \<open>catch\<close> of the handler answers with
  status 500 and the store is as it was.
\<close>

text \<open>\<open>POST /register\<close>\<close>

definition srv_post_register :: "db \<Rightarrow> body \<Rightarrow> response \<times> db" where
  "srv_post_register st req =
     (case Vendor_findOne st (req ''email'') of
        Some existing \<Rightarrow> ((400, Msg ''msg'' ''Email already registered''), st)
      | None \<Rightarrow>
          ((200, Msg ''msg'' ''Vendor registered successfully!''),
           Vendor_create st (req ''vendorname'') (req ''restaurant'') (req ''email'')
             (req ''password'')))"

text \<open>
  \<open>new Student({...})\<close> with the fields of both add handlers: a document with a new
  identifier, to which the fields are assigned in the order of the object.
\<close>

definition blank_student :: "oid \<Rightarrow> oid \<Rightarrow> student" where
  "blank_student i uid =
     \<lparr>student_id = i, name = JUndefined, phone = JUndefined, meals = JUndefined,
      totalAmount = JUndefined, paidAmount = JUndefined, pendingAmount = JUndefined,
      startDate = JUndefined, endDate = JUndefined, nextPaymentDate = JUndefined,
      vendorId = uid\<rparr>"

definition new_Student :: "host \<Rightarrow> db \<Rightarrow> oid \<Rightarrow> body \<Rightarrow> jsval \<Rightarrow> doc" where
  "new_Student h st uid req pending =
     (let d = (blank_student (next_oid st) uid, True);
          d = assign h ''name'' (req ''name'') d;
          d = assign h ''phone'' (req ''phone'') d;
          d = assign h ''meals'' (req ''meals'') d;
          d = assign h ''startDate'' (JDate (new_Date h (req ''startDate''))) d;
          d = assign h ''endDate'' (JDate (new_Date h (req ''endDate''))) d;
          d = assign h ''totalAmount'' (req ''totalAmount'') d;
          d = assign h ''paidAmount'' (req ''paidAmount'') d;
          d = assign h ''pendingAmount'' pending d
      in d)"

text \<open>\<open>POST /studentsadd\<close>\<close>

definition srv_post_studentsadd :: "host \<Rightarrow> db \<Rightarrow> oid \<Rightarrow> body \<Rightarrow> response \<times> db" where
  "srv_post_studentsadd h st uid req =
     (if \<not> truthy (req ''name'') \<or> \<not> truthy (req ''phone'') \<or> \<not> truthy (req ''meals'') \<or>
         \<not> truthy (req ''startDate'') \<or> \<not> truthy (req ''endDate'') \<or>
         loose_null (req ''totalAmount'') \<or> loose_null (req ''paidAmount'')
      then ((400, Msg ''message'' ''All fields are required''), st)
      else
        (let pending = js_sub h (req ''totalAmount'') (req ''paidAmount'');
             newStudent = new_Student h st uid req pending;
             newStudent = assign h ''nextPaymentDate'' (nextPayment h (req ''endDate''))
                            newStudent
         in case Student_insert st newStudent of
              None \<Rightarrow> ((500, Msg ''message'' ''Error adding student''), st)
            | Some st' \<Rightarrow>
                ((201, StudentReply ''Student added successfully'' (fst newStudent)), st')))"

text \<open>\<open>GET /students\<close>\<close>

definition srv_get_students :: "db \<Rightarrow> oid \<Rightarrow> response \<times> db" where
  "srv_get_students st uid = ((200, StudentList (Student_find st uid)), st)"

text \<open>\<open>DELETE /students/:id\<close>\<close>

definition srv_delete_students :: "host \<Rightarrow> db \<Rightarrow> oid \<Rightarrow> string \<Rightarrow> response \<times> db" where
  "srv_delete_students h st uid sid =
     (case castObjectId h sid of
        None \<Rightarrow> ((500, Msg ''message'' ''Error deleting student''), st)
      | Some i \<Rightarrow>
          (case Student_findOneAndDelete st i uid of
             (None, st') \<Rightarrow> ((404, Msg ''message'' ''Student not found''), st')
           | (Some s, st') \<Rightarrow> ((200, Msg ''message'' ''Student deleted successfully''), st')))"

text \<open>\<open>PUT /students/:id\<close>\<close>

definition allowedFields :: "string list" where
  "allowedFields =
     [''name'', ''phone'', ''meals'', ''startDate'', ''endDate'',
      ''totalAmount'', ''paidAmount'', ''pendingAmount'']"

text \<open>The body of the \<open>forEach\<close> over the allow-list.\<close>

definition apply_field :: "host \<Rightarrow> body \<Rightarrow> string \<Rightarrow> doc \<Rightarrow> doc" where
  "apply_field h updates field d =
     (if updates field \<noteq> JUndefined then
        (if field = ''startDate'' \<or> field = ''endDate''
         then assign h field (JDate (new_Date h (updates field))) d
         else assign h field (updates field) d)
      else d)"

definition srv_put_students ::
    "host \<Rightarrow> db \<Rightarrow> oid \<Rightarrow> string \<Rightarrow> body \<Rightarrow> response \<times> db" where
  "srv_put_students h st uid sid updates =
     (case castObjectId h sid of
        None \<Rightarrow> ((500, Msg ''message'' ''Error updating student''), st)
      | Some i \<Rightarrow>
          (case Student_findOne st i uid of
             None \<Rightarrow> ((404, Msg ''message'' ''Student not found''), st)
           | Some found \<Rightarrow>
               (let d = fold (apply_field h updates) allowedFields (found, True);
                    d = (if truthy (updates ''endDate'')
                         then assign h ''nextPaymentDate''
                                (nextPayment h (updates ''endDate'')) d
                         else d)
                in case Student_save st d of
                     None \<Rightarrow> ((500, Msg ''message'' ''Error updating student''), st)
                   | Some st' \<Rightarrow>
                       ((200, StudentReply ''Student updated successfully'' (fst d)), st'))))"

section \<open>The handlers of the second file (\<open>src/unnamed/part_000\<close>)\<close>

text \<open>\<open>POST /register\<close>\<close>

definition p0_post_register :: "host \<Rightarrow> db \<Rightarrow> body \<Rightarrow> response \<times> db" where
  "p0_post_register h st req =
     (if \<not> truthy (req ''name'') \<or> \<not> truthy (req ''email'') \<or> \<not> truthy (req ''password'')
      then ((400, Msg ''error'' ''All fields are required''), st)
      else
        (case Vendor_findOne st (req ''email'') of
           Some existing \<Rightarrow> ((400, Msg ''error'' ''Vendor already exists''), st)
         | None \<Rightarrow>
             (case bcryptHash h (req ''password'') 10 of
                None \<Rightarrow> ((500, Msg ''error'' ''Registration failed''), st)
              | Some hashedPassword \<Rightarrow>
                  ((200, Msg ''message'' ''Vendor registered successfully''),
                   Vendor_create st (req ''name'') JUndefined (req ''email'')
                     (JStr hashedPassword)))))"

text \<open>\<open>POST /students\<close>\<close>

definition p0_post_students :: "host \<Rightarrow> db \<Rightarrow> oid \<Rightarrow> body \<Rightarrow> response \<times> db" where
  "p0_post_students h st uid req =
     (if \<not> truthy (req ''name'') \<or> \<not> truthy (req ''phone'') \<or> \<not> truthy (req ''meals'') \<or>
         \<not> truthy (req ''startDate'') \<or> \<not> truthy (req ''endDate'') \<or>
         loose_null (req ''totalAmount'') \<or> loose_null (req ''paidAmount'')
      then ((400, Msg ''message'' ''All fields are required''), st)
      else
        (let pending = js_sub h (req ''totalAmount'') (req ''paidAmount'');
             newStudent = new_Student h st uid req pending
         in case Student_insert st newStudent of
              None \<Rightarrow> ((500, Msg ''error'' ''Error adding student''), st)
            | Some st' \<Rightarrow>
                ((200, StudentReply ''Student added successfully'' (fst newStudent)), st')))"

text \<open>\<open>GET /students\<close>\<close>

definition p0_get_students :: "db \<Rightarrow> oid \<Rightarrow> response \<times> db" where
  "p0_get_students st uid = ((200, StudentList (Student_find st uid)), st)"

text \<open>\<open>PUT /students/:id\<close>\<close>

definition p0_put_students ::
    "host \<Rightarrow> db \<Rightarrow> oid \<Rightarrow> string \<Rightarrow> body \<Rightarrow> response \<times> db" where
  "p0_put_students h st uid sid req =
     (case castObjectId h sid of
        None \<Rightarrow> ((500, Msg ''error'' ''Error updating student''), st)
      | Some i \<Rightarrow>
          (case Student_findOne st i uid of
             None \<Rightarrow> ((404, Msg ''message'' ''Student not found''), st)
           | Some found \<Rightarrow>
               (let d = (found, True);
                    d = (if truthy (req ''name'') then assign h ''name'' (req ''name'') d
                         else d);
                    d = (if truthy (req ''phone'') then assign h ''phone'' (req ''phone'') d
                         else d);
                    d = (if truthy (req ''meals'') then assign h ''meals'' (req ''meals'') d
                         else d);
                    d = (if \<not> loose_null (req ''totalAmount'')
                         then assign h ''totalAmount'' (req ''totalAmount'') d else d);
                    d = (if \<not> loose_null (req ''paidAmount'')
                         then assign h ''paidAmount'' (req ''paidAmount'') d else d);
                    d = (if truthy (req ''startDate'')
                         then assign h ''startDate'' (JDate (new_Date h (req ''startDate''))) d
                         else d);
                    d = (if truthy (req ''endDate'')
                         then assign h ''endDate'' (JDate (new_Date h (req ''endDate''))) d
                         else d);
                    d = (if \<not> loose_null (req ''totalAmount'') \<and>
                            \<not> loose_null (req ''paidAmount'')
                         then assign h ''pendingAmount''
                                (js_sub h (req ''totalAmount'') (req ''paidAmount'')) d
                         else d);
                    d = (if truthy (endDate (fst d))
                         then assign h ''nextPaymentDate'' (nextPayment h (endDate (fst d))) d
                         else d)
                in case Student_save st d of
                     None \<Rightarrow> ((500, Msg ''error'' ''Error updating student''), st)
                   | Some st' \<Rightarrow>
                       ((200, StudentReply ''Student updated successfully'' (fst d)), st'))))"

text \<open>\<open>DELETE /students/:id\<close>\<close>

definition p0_delete_students :: "host \<Rightarrow> db \<Rightarrow> oid \<Rightarrow> string \<Rightarrow> response \<times> db" where
  "p0_delete_students h st uid sid =
     (case castObjectId h sid of
        None \<Rightarrow> ((500, Msg ''error'' ''Error deleting student''), st)
      | Some i \<Rightarrow>
          (case Student_findOneAndDelete st i uid of
             (None, st') \<Rightarrow> ((404, Msg ''message'' ''Student not found''), st')
           | (Some s, st') \<Rightarrow> ((200, Msg ''message'' ''Student deleted successfully''), st')))"

section \<open>A concrete host\<close>

text \<open>
  For evaluating the handlers: a server whose local time zone is UTC. It reads the
  date-only form \<open>YYYY-MM-DD\<close> as midnight UTC of that day (a day of the month up to 31
  runs on into the following month where the month is shorter), decimal digit strings
  as numbers (the empty string is 0), and strings of 24 hexadecimal digits as document
  identifiers; it prints integers in decimal digits, and its hash of a string prefixes
  it with the bcrypt header of cost 10. These are the inputs that the evaluations below
  use; on the other strings the host stands for, its answers (Invalid Date, NaN, no
  identifier, the empty string) are not meant to follow the runtime.
\<close>

definition digit_val :: "char \<Rightarrow> int option" where
  "digit_val c =
     (let n = (of_char c :: int) in if 48 \<le> n \<and> n \<le> 57 then Some (n - 48) else None)"

fun digits_val :: "int \<Rightarrow> string \<Rightarrow> int option" where
  "digits_val acc [] = Some acc"
| "digits_val acc (c # cs) =
     (case digit_val c of None \<Rightarrow> None | Some d \<Rightarrow> digits_val (10 * acc + d) cs)"

definition decimal :: "string \<Rightarrow> int option" where
  "decimal s = (if s = [] then None else digits_val 0 s)"

definition decimal_number :: "string \<Rightarrow> jsval" where
  "decimal_number s =
     (if s = [] then JNum 0
      else case digits_val 0 s of None \<Rightarrow> JNaN | Some n \<Rightarrow> int_number n)"

definition iso_date :: "string \<Rightarrow> int option" where
  "iso_date s =
     (if length s = 10 \<and> s ! 4 = CHR ''-'' \<and> s ! 7 = CHR ''-'' then
        (case (decimal (take 4 s), decimal (take 2 (drop 5 s)), decimal (drop 8 s)) of
           (Some y, Some m, Some d) \<Rightarrow>
             (if 1 \<le> m \<and> m \<le> 12 \<and> 1 \<le> d \<and> d \<le> 31
              then Some (MakeDate (MakeDay y (m - 1) d) 0)
              else None)
         | _ \<Rightarrow> None)
      else None)"

fun decimal_digits :: "nat \<Rightarrow> nat \<Rightarrow> string" where
  "decimal_digits 0 n = []"
| "decimal_digits (Suc fuel) n =
     (if n < 10 then [char_of (48 + n)]
      else decimal_digits fuel (n div 10) @ [char_of (48 + n mod 10)])"

definition print_number :: "jsval \<Rightarrow> string" where
  "print_number v =
     (case v of
        JNum n \<Rightarrow>
          (if \<bar>n\<bar> < 10 ^ 21
           then (if n < 0 then ''-'' else []) @ decimal_digits 21 (nat \<bar>n\<bar>)
           else [])
      | _ \<Rightarrow> [])"

definition hex_val :: "char \<Rightarrow> nat option" where
  "hex_val c =
     (let n = (of_char c :: nat) in
      if 48 \<le> n \<and> n \<le> 57 then Some (n - 48)
      else if 97 \<le> n \<and> n \<le> 102 then Some (n - 87)
      else if 65 \<le> n \<and> n \<le> 70 then Some (n - 55)
      else None)"

fun hex_number :: "nat \<Rightarrow> string \<Rightarrow> nat option" where
  "hex_number acc [] = Some acc"
| "hex_number acc (c # cs) =
     (case hex_val c of None \<Rightarrow> None | Some d \<Rightarrow> hex_number (16 * acc + d) cs)"

definition hex24 :: "string \<Rightarrow> oid option" where
  "hex24 s = (if length s = 24 then hex_number 0 s else None)"

definition utc_host :: host where
  "utc_host =
     \<lparr>dateParse = iso_date,
      localTZA = (\<lambda>t u. 0),
      stringToNumber = decimal_number,
      valueToString = print_number,
      bcryptHash = (\<lambda>v rounds. case v of JStr s \<Rightarrow> Some (''$2a$10$'' @ s) | _ \<Rightarrow> None),
      castObjectId = hex24\<rparr>"

definition empty_db :: db where
  "empty_db = \<lparr>vendors = [], students = [], next_oid = 0\<rparr>"

definition no_body :: body where
  "no_body = (\<lambda>k. JUndefined)"

section \<open>The length of a month\<close>

text \<open>
  The number of days of month \<open>m\<close> (0 to 11) of year \<open>y\<close>, for stating what the
  calendar arithmetic does.
\<close>

definition DaysInMonth :: "int \<Rightarrow> int \<Rightarrow> int" where
  "DaysInMonth y m =
     (let l = (if DaysInYear y = 366 then 1 else 0) in MonthStart l (m + 1) - MonthStart l m)"

section \<open>Well-formed stores\<close>

text \<open>
  The store gives every document its own identifier. For the students this is the
  invariant \<open>wf_db\<close>; it holds of the empty store and every handler keeps it.
\<close>

definition wf_db :: "db \<Rightarrow> bool" where
  "wf_db st \<longleftrightarrow>
     distinct (map student_id (students st)) \<and>
     (\<forall>s\<in>set (students st). student_id s < next_oid st)"

section \<open>Concrete stores and requests\<close>

definition one_vendor_db :: db where
  "one_vendor_db =
     \<lparr>vendors = [\<lparr>vendor_id = 0, vendorname = JStr ''Mess A'', restaurant = JUndefined,
                   email = JStr ''a@b.c'', password = JStr ''$2a$10$pw''\<rparr>],
      students = [], next_oid = 1\<rparr>"

definition reg_req :: body where
  "reg_req =
     no_body(''vendorname'' := JStr ''Mess A'', ''name'' := JStr ''Mess A'',
             ''email'' := JStr ''a@b.c'', ''password'' := JStr ''secret'')"

definition reg_req_no_password :: body where
  "reg_req_no_password = reg_req(''password'' := JUndefined)"

definition reg_req_no_name :: body where
  "reg_req_no_name = reg_req(''name'' := JUndefined, ''vendorname'' := JUndefined)"

definition add_req :: body where
  "add_req =
     no_body(''name'' := JStr ''Asha'', ''phone'' := JStr ''5550100'',
             ''meals'' := JStr ''lunch'', ''startDate'' := JStr ''2024-01-01'',
             ''endDate'' := JStr ''2024-01-31'', ''totalAmount'' := JNum 1000,
             ''paidAmount'' := JNum 300)"


definition add_req_jan15 :: body where
  "add_req_jan15 = add_req(''endDate'' := JStr ''2024-01-15'')"

definition asha :: student where
  "asha =
     \<lparr>student_id = 11, name = JStr ''Asha'', phone = JStr ''5550100'', meals = JStr ''lunch'',
      totalAmount = JNum 1000, paidAmount = JNum 300, pendingAmount = JNum 700,
      startDate = JDate (Some 1704067200000), endDate = JDate (Some 1706659200000),
      nextPaymentDate = JDate (Some 1709337600000), vendorId = 7\<rparr>"

definition ravi :: student where
  "ravi =
     \<lparr>student_id = 12, name = JStr ''Ravi'', phone = JStr ''5550101'', meals = JStr ''dinner'',
      totalAmount = JNum 2000, paidAmount = JNum 2000, pendingAmount = JNum 0,
      startDate = JDate (Some 1704067200000), endDate = JDate (Some 1705276800000),
      nextPaymentDate = JDate (Some 1707955200000), vendorId = 8\<rparr>"

definition two_students_db :: db where
  "two_students_db = \<lparr>vendors = [], students = [asha, ravi], next_oid = 13\<rparr>"

definition asha_id :: string where
  "asha_id = ''00000000000000000000000b''"

definition ravi_id :: string where
  "ravi_id = ''00000000000000000000000c''"

definition pay_req :: body where
  "pay_req = no_body(''paidAmount'' := JNum 500)"

definition amounts_req :: body where
  "amounts_req =
     no_body(''totalAmount'' := JNum 1500, ''paidAmount'' := JNum 500,
             ''pendingAmount'' := JNum 1)"




section \<open>The subtraction of numbers\<close>

text \<open>An integer of less than 54 bits is kept as it is.\<close>

lemma round53_small: "\<bar>k\<bar> < 2 ^ 53 \<Longrightarrow> round53 k = k"
  by (simp add: round53_def)

text \<open>So is an integer whose bits below the 53 leading ones are zero.\<close>

lemma round53_dvd:
  assumes big: "2 ^ 53 \<le> \<bar>k\<bar>" and dvd: "2 ^ nat (bitlen \<bar>k\<bar> - 53) dvd \<bar>k\<bar>"
  shows "round53 k = k"
proof -
  define sh where "sh = nat (bitlen \<bar>k\<bar> - 53)"
  have m: "\<bar>k\<bar> mod 2 ^ sh = 0"
    using dvd by (simp add: sh_def)
  have d: "\<bar>k\<bar> div 2 ^ sh * 2 ^ sh = \<bar>k\<bar>"
    using dvd by (simp add: sh_def)
  have h: "\<not> (2::int) ^ (sh - 1) < 0" "(0::int) \<noteq> 2 ^ (sh - 1)"
    by simp_all
  have "round53 k = sgn k * (\<bar>k\<bar> div 2 ^ sh * 2 ^ sh)"
    unfolding round53_def Let_def sh_def [symmetric] m
    using big h by (simp del: power_numeral)
  then show ?thesis
    by (simp add: d mult_sgn_abs)
qed

text \<open>
  Rounding does not depend on the unit: the rounding of \<open>n * 2^e\<close> is the rounding of
  \<open>n\<close>, times \<open>2^e\<close>.
\<close>

lemma round53_exact_scale:
  assumes n: "n \<noteq> 0" "\<bar>n\<bar> < 2 ^ 53" and e: "53 \<le> e"
  shows "round53 (n * 2 ^ e) = n * 2 ^ e"
proof (rule round53_dvd)
  define a where "a = \<bar>n\<bar>"
  have a: "0 < a" "a < 2 ^ 53"
    using n by (simp_all add: a_def)
  have abs: "\<bar>n * 2 ^ e\<bar> = a * 2 ^ e"
    by (simp add: a_def abs_mult)
  have "(2::int) ^ 53 \<le> 2 ^ e"
    using e by (intro power_increasing) simp_all
  also have "\<dots> \<le> a * 2 ^ e"
    using a(1) by simp
  finally show "2 ^ 53 \<le> \<bar>n * 2 ^ e\<bar>"
    by (simp only: abs)
  have bl: "1 \<le> bitlen a" "bitlen a \<le> 53"
    using a bitlen_eq_zero_iff [of a] bitlen_nonneg [of a]
    by (simp_all add: bitlen_le_iff_power)
  define sh where "sh = nat (bitlen a + int e - 53)"
  have sh: "sh \<le> e"
    using bl by (simp add: sh_def)
  have "(2::int) ^ sh dvd 2 ^ e"
    using sh by (rule le_imp_power_dvd)
  then have "(2::int) ^ sh dvd a * 2 ^ e"
    by (rule dvd_mult)
  then show "2 ^ nat (bitlen \<bar>n * 2 ^ e\<bar> - 53) dvd \<bar>n * 2 ^ e\<bar>"
    using a(1) by (simp only: abs bitlen_pow2 sh_def)
qed

lemma round53_scale:
  assumes n: "2 ^ 53 \<le> \<bar>n\<bar>"
  shows "round53 (n * 2 ^ e) = round53 n * 2 ^ e"
proof -
  define a where "a = \<bar>n\<bar>"
  define sh where "sh = nat (bitlen a - 53)"
  define P where "P = (2::int) ^ 53"
  have a: "0 < a" "P \<le> a"
    using n by (simp_all add: a_def P_def)
  have "\<not> bitlen a \<le> 53"
    using a(2) by (simp add: bitlen_le_iff_power P_def)
  then have bl: "54 \<le> bitlen a"
    by simp
  then have sh: "1 \<le> sh" and she: "nat (bitlen a + int e - 53) = sh + e"
    by (simp_all add: sh_def nat_add_distrib)
  have abs: "\<bar>n * 2 ^ e\<bar> = a * 2 ^ e"
    by (simp add: a_def abs_mult)
  have big: "\<not> a * 2 ^ e < P"
  proof -
    have "a * 1 \<le> a * 2 ^ e"
      using a(1) by (intro mult_left_mono) simp_all
    with a(2) show ?thesis by simp
  qed
  have nbig: "\<not> a < P"
    using a(2) by simp
  have q: "a * 2 ^ e div 2 ^ (sh + e) = a div 2 ^ sh"
    by (simp add: power_add)
  have r: "a * 2 ^ e mod 2 ^ (sh + e) = (a mod 2 ^ sh) * 2 ^ e"
    unfolding power_add by (rule mult_mod_left [symmetric])
  have half: "(2::int) ^ (sh + e - 1) = 2 ^ (sh - 1) * 2 ^ e"
    using sh by (simp flip: power_add)
  have lt: "(2::int) ^ (sh - 1) * 2 ^ e < (a mod 2 ^ sh) * 2 ^ e \<longleftrightarrow>
            2 ^ (sh - 1) < a mod 2 ^ sh"
    by simp
  have eq: "(a mod 2 ^ sh) * 2 ^ e = (2::int) ^ (sh - 1) * 2 ^ e \<longleftrightarrow>
            a mod 2 ^ sh = 2 ^ (sh - 1)"
    by simp
  have sg: "sgn (n * 2 ^ e) = sgn n"
    by (simp add: sgn_mult)
  define q' where
    "q' = (if 2 ^ (sh - 1) < a mod 2 ^ sh \<or>
              (a mod 2 ^ sh = 2 ^ (sh - 1) \<and> odd (a div 2 ^ sh))
           then a div 2 ^ sh + 1 else a div 2 ^ sh)"
  have "round53 (n * 2 ^ e) = sgn n * (q' * 2 ^ (sh + e))"
    unfolding round53_def abs Let_def P_def [symmetric]
    using big a(1)
    by (simp only: bitlen_pow2 she q r half lt eq sg if_False q'_def)
  moreover have "round53 n = sgn n * (q' * 2 ^ sh)"
    unfolding round53_def Let_def a_def [symmetric] sh_def [symmetric] P_def [symmetric]
    using nbig by (simp only: if_False q'_def)
  ultimately show ?thesis
    by (simp add: power_add mult.assoc)
qed

lemma round53_sign: "0 < round53 n \<longleftrightarrow> 0 < n"
proof (cases "\<bar>n\<bar> < 2 ^ 53")
  case True
  then show ?thesis by (simp add: round53_small)
next
  case False
  define a where "a = \<bar>n\<bar>"
  define sh where "sh = nat (bitlen a - 53)"
  define P where "P = (2::int) ^ 53"
  from False have a: "P \<le> a" "\<not> a < P" "0 < a"
    by (simp_all add: a_def P_def)
  have "\<not> bitlen a \<le> 53"
    using a(1) by (simp add: bitlen_le_iff_power P_def)
  then have b: "2 ^ nat (bitlen a - 1) \<le> a" and s: "sh \<le> nat (bitlen a - 1)"
    using bitlen_bounds [of a] a(3) by (simp_all add: sh_def)
  have "(2::int) ^ sh \<le> 2 ^ nat (bitlen a - 1)"
    using s by (intro power_increasing) simp_all
  from this b have "2 ^ sh \<le> a"
    by (rule order_trans)
  then have "0 < a div 2 ^ sh"
    by (simp add: pos_imp_zdiv_pos_iff)
  define X where
    "X = (if 2 ^ (sh - 1) < a mod 2 ^ sh \<or>
             (a mod 2 ^ sh = 2 ^ (sh - 1) \<and> odd (a div 2 ^ sh))
          then a div 2 ^ sh + 1 else a div 2 ^ sh) * 2 ^ sh"
  from \<open>0 < a div 2 ^ sh\<close> have pos: "0 < X"
    by (simp add: X_def)
  have "round53 n = sgn n * X"
    unfolding round53_def Let_def a_def [symmetric] sh_def [symmetric] P_def [symmetric]
    using a(2) by (simp only: if_False X_def)
  with pos show ?thesis
    by (cases n "0::int" rule: linorder_cases) (simp_all add: zero_less_mult_iff)
qed

text \<open>
  The difference of two numbers with integer values is the double nearest to the exact
  difference; it is the exact difference when that has less than 54 bits.
\<close>

lemma of_scaled_ulps: "of_scaled (r * ulps) = (if \<bar>r\<bar> \<ge> 2 ^ 1024 then JInf (0 < r) else JNum r)"
proof -
  have u: "0 < ulps"
    by (simp add: ulps_def)
  have p: "(2::int) ^ 2098 = 2 ^ 1024 * ulps"
    unfolding ulps_def by (simp only: power_add [symmetric]) simp
  have "\<bar>r * ulps\<bar> \<ge> 2 ^ 1024 * ulps \<longleftrightarrow> \<bar>r\<bar> \<ge> 2 ^ 1024"
    using u by (simp only: abs_mult abs_of_pos mult_le_cancel_right_pos)
  moreover have "0 < r * ulps \<longleftrightarrow> 0 < r"
    using u by (simp only: zero_less_mult_iff) auto
  moreover have "r * ulps mod ulps = 0" "r * ulps div ulps = r"
    using u by simp_all
  ultimately show ?thesis
    unfolding of_scaled_def p by (simp only: simp_thms if_True)
qed

lemma num_sub_ints:
  "num_sub (JNum a) (JNum b) = (if a = b then JNum 0 else int_number (a - b))"
proof (cases "a = b")
  case True
  then show ?thesis by (simp add: num_sub_def)
next
  case False
  define n where "n = a - b"
  have n: "n \<noteq> 0" using False by (simp add: n_def)
  have k: "scaled (JNum a) - scaled (JNum b) = n * ulps"
    by (simp add: n_def algebra_simps)
  have k0: "n * ulps \<noteq> 0"
    using n by (simp add: ulps_def)
  have r: "round53 (n * ulps) = round53 n * ulps"
  proof (cases "\<bar>n\<bar> < 2 ^ 53")
    case True
    have "round53 (n * 2 ^ 1074) = n * 2 ^ 1074"
      using n True by (rule round53_exact_scale) simp
    with True show ?thesis
      by (simp only: round53_small ulps_def)
  next
    case False
    then show ?thesis
      unfolding ulps_def by (intro round53_scale) simp
  qed
  have "num_sub (JNum a) (JNum b) = of_scaled (round53 n * ulps)"
    unfolding num_sub_def Let_def k r [symmetric] using k0 by simp
  then show ?thesis
    using False by (simp add: of_scaled_ulps int_number_def n_def [symmetric] round53_sign Let_def)
qed

lemma num_sub_ints_exact:
  assumes "\<bar>a - b\<bar> < 2 ^ 53"
  shows "num_sub (JNum a) (JNum b) = JNum (a - b)"
proof -
  have "\<bar>a - b\<bar> < (2::int) ^ 1024"
    using assms by (rule less_trans) simp
  with assms show ?thesis
    by (simp add: num_sub_ints int_number_def round53_small)
qed

lemma js_sub_numbers:
  "\<bar>a - b\<bar> < 2 ^ 53 \<Longrightarrow> js_sub h (JNum a) (JNum b) = JNum (a - b)"
  by (simp add: js_sub_def num_sub_ints_exact)



text \<open>The difference of any two values is a number, and a number other than NaN is cast to itself.\<close>

lemma is_number_of_scaled: "is_number (of_scaled k)"
  by (simp add: of_scaled_def)

lemma is_number_num_sub: "is_number (num_sub x y)"
  by (cases x; cases y) (simp_all add: num_sub_def Let_def is_number_of_scaled)

lemma castNumber_number:
  "is_number v \<Longrightarrow> castNumber h v = (if v = JNaN then None else Some v)"
  by (cases v) (simp_all add: castNumber_def)

lemma castNumber_js_sub:
  "castNumber h (js_sub h a b) = (if js_sub h a b = JNaN then None else Some (js_sub h a b))"
  by (simp add: js_sub_def castNumber_number is_number_num_sub)

section \<open>Evaluating the concrete requests\<close>

lemma reg_req_simps:
  "reg_req ''vendorname'' = JStr ''Mess A''" "reg_req ''name'' = JStr ''Mess A''"
  "reg_req ''restaurant'' = JUndefined"
  "reg_req ''email'' = JStr ''a@b.c''" "reg_req ''password'' = JStr ''secret''"
  by (simp_all add: reg_req_def no_body_def)

lemma reg_req_no_password_simps:
  "reg_req_no_password ''vendorname'' = JStr ''Mess A''"
  "reg_req_no_password ''name'' = JStr ''Mess A''"
  "reg_req_no_password ''restaurant'' = JUndefined"
  "reg_req_no_password ''email'' = JStr ''a@b.c''"
  "reg_req_no_password ''password'' = JUndefined"
  by (simp_all add: reg_req_no_password_def reg_req_def no_body_def)

lemma reg_req_no_name_simps:
  "reg_req_no_name ''vendorname'' = JUndefined"
  "reg_req_no_name ''name'' = JUndefined"
  "reg_req_no_name ''restaurant'' = JUndefined"
  "reg_req_no_name ''email'' = JStr ''a@b.c''"
  "reg_req_no_name ''password'' = JStr ''secret''"
  by (simp_all add: reg_req_no_name_def reg_req_def no_body_def)



lemma add_req_jan15_simps:
  "add_req_jan15 ''name'' = JStr ''Asha''" "add_req_jan15 ''phone'' = JStr ''5550100''"
  "add_req_jan15 ''meals'' = JStr ''lunch''"
  "add_req_jan15 ''startDate'' = JStr ''2024-01-01''"
  "add_req_jan15 ''endDate'' = JStr ''2024-01-15''"
  "add_req_jan15 ''totalAmount'' = JNum 1000"
  "add_req_jan15 ''paidAmount'' = JNum 300"
  by (simp_all add: add_req_jan15_def add_req_def no_body_def)



lemma amounts_req_simps:
  "amounts_req ''name'' = JUndefined" "amounts_req ''phone'' = JUndefined"
  "amounts_req ''meals'' = JUndefined" "amounts_req ''startDate'' = JUndefined"
  "amounts_req ''endDate'' = JUndefined" "amounts_req ''totalAmount'' = JNum 1500"
  "amounts_req ''paidAmount'' = JNum 500" "amounts_req ''pendingAmount'' = JNum 1"
  by (simp_all add: amounts_req_def no_body_def)

lemma iso_date_values:
  "iso_date ''2024-01-01'' = Some 1704067200000"
  "iso_date ''2024-01-15'' = Some 1705276800000"
  "iso_date ''2024-01-31'' = Some 1706659200000"
  "iso_date ''2024-02-15'' = Some 1707955200000"
  "iso_date ''2024-02-29'' = Some 1709164800000"
  "iso_date ''2024-03-02'' = Some 1709337600000"
  by (simp_all add: iso_date_def decimal_def digit_val_def MakeDay_def MakeDate_def
      DayFromYear_def DaysInYear_def MonthStart_def Let_def msPerDay_def)

lemma utc_host_simps:
  "dateParse utc_host = iso_date" "localTZA utc_host = (\<lambda>t u. 0)"
  "stringToNumber utc_host = decimal_number" "castObjectId utc_host = hex24"
  by (simp_all add: utc_host_def)

lemma hex24_values:
  "hex24 asha_id = Some 11" "hex24 ravi_id = Some 12" "hex24 ''abc'' = None"
  by (simp_all add: hex24_def hex_val_def asha_id_def ravi_id_def)

section \<open>Look-ups in the store\<close>

lemma find_None_iff_set: "find P xs = None \<longleftrightarrow> \<not> (\<exists>x\<in>set xs. P x)"
  by (induction xs) auto

lemma Vendor_findOne_None:
  "Vendor_findOne st e = None \<longleftrightarrow> \<not> (\<exists>v\<in>set (vendors st). email v = e)"
  by (simp add: Vendor_findOne_def find_None_iff_set)

lemma Vendor_findOne_empty: "Vendor_findOne empty_db e = None"
  by (simp add: Vendor_findOne_def empty_db_def)

lemma Vendor_findOne_one: "Vendor_findOne one_vendor_db (JStr ''a@b.c'') \<noteq> None"
  by (simp add: Vendor_findOne_def one_vendor_db_def)

lemma Student_findOne_None:
  "Student_findOne st i uid = None \<longleftrightarrow>
   \<not> (\<exists>s\<in>set (students st). student_id s = i \<and> vendorId s = uid)"
  by (simp add: Student_findOne_def find_None_iff_set)

lemma Student_findOne_Some:
  "Student_findOne st i uid = Some s \<Longrightarrow>
   s \<in> set (students st) \<and> student_id s = i \<and> vendorId s = uid"
  unfolding Student_findOne_def by (auto simp: find_Some_iff)

lemma findOne_asha: "Student_findOne two_students_db 11 7 = Some asha"
  by (simp add: Student_findOne_def two_students_db_def asha_def)

lemma findOne_ravi_other_vendor: "Student_findOne two_students_db 12 7 = None"
  by (simp add: Student_findOne_def two_students_db_def asha_def ravi_def)

lemma Student_save_two_students:
  "student_id s = 11 \<Longrightarrow>
   Student_save two_students_db (s, True) = Some (two_students_db\<lparr>students := [s, ravi]\<rparr>)"
  by (simp add: Student_save_def two_students_db_def asha_def ravi_def)

section \<open>Registration\<close>

text \<open>
  The second file hashes the password with cost factor 10 before it stores the vendor,
  and rejects a request that lacks a field before it touches the store.
\<close>

lemma p0_register_stores_hash:
  assumes "p0_post_register h st req = ((200, m), st')"
  shows "\<exists>hp. bcryptHash h (req ''password'') 10 = Some hp \<and>
           vendors st' = vendors st @
             [\<lparr>vendor_id = next_oid st, vendorname = req ''name'', restaurant = JUndefined,
               email = req ''email'', password = JStr hp\<rparr>]"
  using assms
  by (auto simp: p0_post_register_def Vendor_create_def split: if_splits option.splits)

lemma p0_register_requires_fields:
  assumes "req ''name'' = JUndefined \<or> req ''email'' = JUndefined \<or>
           req ''password'' = JUndefined"
  shows "p0_post_register h st req = ((400, Msg ''error'' ''All fields are required''), st)"
  using assms by (auto simp: p0_post_register_def)

text \<open>
  The handler of \<open>Server.js\<close> stores the fields of the request as they came, for every
  request whose email is not yet in the store.
\<close>

lemma srv_register_stores_request_password:
  assumes "Vendor_findOne st (req ''email'') = None"
  shows "srv_post_register st req =
           ((200, Msg ''msg'' ''Vendor registered successfully!''),
            st\<lparr>vendors := vendors st @
                   [\<lparr>vendor_id = next_oid st, vendorname = req ''vendorname'',
                     restaurant = req ''restaurant'', email = req ''email'',
                     password = req ''password''\<rparr>],
               next_oid := next_oid st + 1\<rparr>)"
  using assms by (simp add: srv_post_register_def Vendor_create_def)

text \<open>
  C1. Register is to store the password only as a salted hash of cost factor 10. The
  handler of \<open>Server.js\<close> passes the password of the request to the store as it came:
  registering \<open>secret\<close> on the empty store leaves a vendor whose password field is the
  string \<open>secret\<close>.
\<close>

theorem srv_register_keeps_plaintext:
  "srv_post_register empty_db reg_req =
     ((200, Msg ''msg'' ''Vendor registered successfully!''),
      \<lparr>vendors = [\<lparr>vendor_id = 0, vendorname = JStr ''Mess A'', restaurant = JUndefined,
                    email = JStr ''a@b.c'', password = JStr ''secret''\<rparr>],
       students = [], next_oid = 1\<rparr>)"
  by (simp add: srv_post_register_def Vendor_findOne_empty Vendor_create_def reg_req_simps)
     (simp add: empty_db_def)

text \<open>
  C2. Register with a required field absent is to fail with a validation error and
  persist nothing. The handler of \<open>Server.js\<close> has no such check: a request without
  a password is answered with success, and a vendor without a password is stored.
\<close>

theorem srv_register_accepts_missing_password:
  "srv_post_register empty_db reg_req_no_password =
     ((200, Msg ''msg'' ''Vendor registered successfully!''),
      \<lparr>vendors = [\<lparr>vendor_id = 0, vendorname = JStr ''Mess A'', restaurant = JUndefined,
                    email = JStr ''a@b.c'', password = JUndefined\<rparr>],
       students = [], next_oid = 1\<rparr>)"
  by (simp add: srv_post_register_def Vendor_findOne_empty Vendor_create_def
        reg_req_no_password_simps)
     (simp add: empty_db_def)

text \<open>
  C3, as stated: Register with the email of a registered vendor fails with Conflict
  whatever the other fields are. In the second file the check of the required fields
  comes first: with the name absent, the answer is the validation error, not the
  conflict.
\<close>

theorem p0_register_validates_before_conflict:
  "Vendor_findOne one_vendor_db (reg_req_no_name ''email'') \<noteq> None \<and>
   p0_post_register utc_host one_vendor_db reg_req_no_name =
     ((400, Msg ''error'' ''All fields are required''), one_vendor_db) \<and>
   fst (p0_post_register utc_host one_vendor_db reg_req_no_name) \<noteq>
     (400, Msg ''error'' ''Vendor already exists'')"
  by (simp add: p0_post_register_def reg_req_no_name_simps Vendor_findOne_one)

text \<open>
  C3, amended: for every Register call whose email is the email of a registered
  vendor, the store is unchanged and the call fails with status 400. In \<open>Server.js\<close>
  the failure is the conflict, whatever the other fields are. In the second file it is
  the conflict when name, email and password are all present and not empty, and the
  validation error otherwise.
\<close>

theorem register_existing_email:
  assumes "\<exists>v\<in>set (vendors st). email v = JStr e" and "req ''email'' = JStr e"
  shows "srv_post_register st req = ((400, Msg ''msg'' ''Email already registered''), st) \<and>
         p0_post_register h st req =
           (if truthy (req ''name'') \<and> e \<noteq> [] \<and> truthy (req ''password'')
            then ((400, Msg ''error'' ''Vendor already exists''), st)
            else ((400, Msg ''error'' ''All fields are required''), st))"
proof -
  from assms have "Vendor_findOne st (req ''email'') \<noteq> None"
    by (simp add: Vendor_findOne_None)
  then obtain v where "Vendor_findOne st (req ''email'') = Some v"
    by auto
  then show ?thesis
    using assms(2) by (simp add: srv_post_register_def p0_post_register_def)
qed

theorem register_existing_email_witness:
  "(\<exists>v\<in>set (vendors one_vendor_db). email v = JStr ''a@b.c'') \<and>
   reg_req ''email'' = JStr ''a@b.c'' \<and>
   srv_post_register one_vendor_db reg_req =
     ((400, Msg ''msg'' ''Email already registered''), one_vendor_db) \<and>
   p0_post_register utc_host one_vendor_db reg_req =
     ((400, Msg ''error'' ''Vendor already exists''), one_vendor_db)"
proof -
  have a: "\<exists>v\<in>set (vendors one_vendor_db). email v = JStr ''a@b.c''"
    by (simp add: one_vendor_db_def)
  have b: "reg_req ''email'' = JStr ''a@b.c''"
    by (simp add: reg_req_simps)
  from register_existing_email
         [where st = one_vendor_db and e = "''a@b.c''" and req = reg_req and h = utc_host]
       a b
  show ?thesis
    by (simp add: reg_req_simps)
qed

section \<open>Documents and their assignments\<close>

text \<open>A value for a string path can always be cast; a Date object unless it is invalid.\<close>

lemma castString_Some: "\<exists>v'. castString h v = Some v'"
  by (cases v) (simp_all add: castString_def)

lemma castString_JStr: "castString h (JStr s) = Some (JStr s)"
  by (simp add: castString_def)

lemma castNumber_JNum: "castNumber h (JNum n) = Some (JNum n)"
  by (simp add: castNumber_def)

lemma castDate_JDate: "castDate (JDate t) = (case t of None \<Rightarrow> None | Some x \<Rightarrow> Some (JDate t))"
  by (cases t) (simp_all add: castDate_def)

text \<open>The assignment to each path of the schema, written out.\<close>

lemma assign_paths:
  "assign h ''name'' v d =
     (case castString h v of None \<Rightarrow> (fst d, False) | Some v' \<Rightarrow> ((fst d)\<lparr>name := v'\<rparr>, snd d))"
  "assign h ''phone'' v d =
     (case castString h v of None \<Rightarrow> (fst d, False) | Some v' \<Rightarrow> ((fst d)\<lparr>phone := v'\<rparr>, snd d))"
  "assign h ''meals'' v d =
     (case castString h v of None \<Rightarrow> (fst d, False) | Some v' \<Rightarrow> ((fst d)\<lparr>meals := v'\<rparr>, snd d))"
  "assign h ''startDate'' v d =
     (case castDate v of None \<Rightarrow> (fst d, False)
      | Some v' \<Rightarrow> ((fst d)\<lparr>startDate := v'\<rparr>, snd d))"
  "assign h ''endDate'' v d =
     (case castDate v of None \<Rightarrow> (fst d, False) | Some v' \<Rightarrow> ((fst d)\<lparr>endDate := v'\<rparr>, snd d))"
  "assign h ''totalAmount'' v d =
     (case castNumber h v of None \<Rightarrow> (fst d, False)
      | Some v' \<Rightarrow> ((fst d)\<lparr>totalAmount := v'\<rparr>, snd d))"
  "assign h ''paidAmount'' v d =
     (case castNumber h v of None \<Rightarrow> (fst d, False)
      | Some v' \<Rightarrow> ((fst d)\<lparr>paidAmount := v'\<rparr>, snd d))"
  "assign h ''pendingAmount'' v d =
     (case castNumber h v of None \<Rightarrow> (fst d, False)
      | Some v' \<Rightarrow> ((fst d)\<lparr>pendingAmount := v'\<rparr>, snd d))"
  "assign h ''nextPaymentDate'' v d =
     (case castDate v of None \<Rightarrow> (fst d, False)
      | Some v' \<Rightarrow> ((fst d)\<lparr>nextPaymentDate := v'\<rparr>, snd d))"
  by (simp_all add: assign_def cast_path_def set_field_def split: option.splits)

text \<open>No assignment touches the identifier or the owner of the document.\<close>

lemma set_field_student_id: "student_id (set_field f v s) = student_id s"
  by (simp add: set_field_def)

lemma set_field_vendorId: "vendorId (set_field f v s) = vendorId s"
  by (simp add: set_field_def)

lemma assign_student_id: "student_id (fst (assign h f v d)) = student_id (fst d)"
  by (simp add: assign_def set_field_student_id split: option.splits)

lemma assign_vendorId: "vendorId (fst (assign h f v d)) = vendorId (fst d)"
  by (simp add: assign_def set_field_vendorId split: option.splits)

text \<open>An assignment never makes an invalid document valid.\<close>

lemma assign_valid: "snd (assign h f v d) \<longleftrightarrow> snd d \<and> cast_path h f v \<noteq> None"
  by (simp add: assign_def split: option.splits)

text \<open>The pending amount and the next payment date after an assignment.\<close>

lemma assign_pendingAmount:
  "pendingAmount (fst (assign h f v d)) =
     (if f = ''pendingAmount''
      then (case castNumber h v of None \<Rightarrow> pendingAmount (fst d) | Some v' \<Rightarrow> v')
      else pendingAmount (fst d))"
  by (simp add: assign_def cast_path_def set_field_def split: option.splits)

lemma assign_nextPaymentDate:
  "nextPaymentDate (fst (assign h f v d)) =
     (if f = ''nextPaymentDate''
      then (case castDate v of None \<Rightarrow> nextPaymentDate (fst d) | Some v' \<Rightarrow> v')
      else nextPaymentDate (fst d))"
  by (simp add: assign_def cast_path_def set_field_def split: option.splits)

lemma assign_endDate:
  "endDate (fst (assign h f v d)) =
     (if f = ''endDate''
      then (case castDate v of None \<Rightarrow> endDate (fst d) | Some v' \<Rightarrow> v')
      else endDate (fst d))"
  by (simp add: assign_def cast_path_def set_field_def split: option.splits)

text \<open>The new document of the add handlers.\<close>

lemma new_Student_ids:
  "student_id (fst (new_Student h st uid req p)) = next_oid st"
  "vendorId (fst (new_Student h st uid req p)) = uid"
  by (simp_all add: new_Student_def Let_def assign_student_id assign_vendorId
      blank_student_def)

lemma new_Student_valid:
  "snd (new_Student h st uid req p) \<longleftrightarrow>
     new_Date h (req ''startDate'') \<noteq> None \<and> new_Date h (req ''endDate'') \<noteq> None \<and>
     castNumber h (req ''totalAmount'') \<noteq> None \<and> castNumber h (req ''paidAmount'') \<noteq> None \<and>
     castNumber h p \<noteq> None"
proof -
  have s: "cast_path h ''name'' v \<noteq> None" "cast_path h ''phone'' v \<noteq> None"
    "cast_path h ''meals'' v \<noteq> None" for v
    using castString_Some [of h v] by (auto simp: cast_path_def)
  have d: "cast_path h ''startDate'' (JDate t) \<noteq> None \<longleftrightarrow> t \<noteq> None"
    "cast_path h ''endDate'' (JDate t) \<noteq> None \<longleftrightarrow> t \<noteq> None" for t
    by (simp_all add: cast_path_def castDate_JDate split: option.splits)
  have n: "cast_path h ''totalAmount'' v = castNumber h v"
    "cast_path h ''paidAmount'' v = castNumber h v"
    "cast_path h ''pendingAmount'' v = castNumber h v" for v
    by (simp_all add: cast_path_def)
  show ?thesis
    by (simp add: new_Student_def Let_def assign_valid s d n del: not_None_eq)
qed


lemma new_Student_nextPaymentDate:
  "nextPaymentDate (fst (new_Student h st uid req p)) = JUndefined"
  by (simp add: new_Student_def Let_def assign_nextPaymentDate blank_student_def
      split: option.splits)

lemma new_Student_endDate:
  "endDate (fst (new_Student h st uid req p)) =
     (case new_Date h (req ''endDate'') of None \<Rightarrow> JUndefined | Some t \<Rightarrow> JDate (Some t))"
  by (simp add: new_Student_def Let_def assign_endDate blank_student_def castDate_JDate
      split: option.splits)

text \<open>The new document for a request of strings, dates that parse and amounts that are numbers.\<close>

lemma new_Student_plain:
  assumes "req ''name'' = JStr n" and "req ''phone'' = JStr ph" and "req ''meals'' = JStr ml"
    and "new_Date h (req ''startDate'') = Some t1"
    and "new_Date h (req ''endDate'') = Some t2"
    and "castNumber h (req ''totalAmount'') = Some tot"
    and "castNumber h (req ''paidAmount'') = Some pd"
    and "castNumber h p = Some pe"
  shows "new_Student h st uid req p =
           (\<lparr>student_id = next_oid st, name = JStr n, phone = JStr ph, meals = JStr ml,
             totalAmount = tot, paidAmount = pd, pendingAmount = pe,
             startDate = JDate (Some t1), endDate = JDate (Some t2),
             nextPaymentDate = JUndefined, vendorId = uid\<rparr>, True)"
  using assms
  by (simp add: new_Student_def Let_def assign_paths castString_JStr castDate_JDate
      blank_student_def)

section \<open>The next payment date\<close>

text \<open>
  A time value \<open>k * msPerDay + r\<close> with \<open>0 \<le> r < msPerDay\<close> lies on day \<open>k\<close>, at time
  \<open>r\<close> of the day.
\<close>

lemma day_split_Day:
  assumes "0 \<le> r" and "r < msPerDay"
  shows "Day (k * msPerDay + r) = k"
proof -
  have "0 < msPerDay" by (simp add: msPerDay_def)
  then show ?thesis
    unfolding Day_def using assms by (simp add: div_pos_pos_trivial)
qed

lemma day_split_TimeWithinDay:
  assumes "0 \<le> r" and "r < msPerDay"
  shows "TimeWithinDay (k * msPerDay + r) = r"
proof -
  have "0 < msPerDay" by (simp add: msPerDay_def)
  then show ?thesis
    unfolding TimeWithinDay_def using assms by (simp add: mod_pos_pos_trivial)
qed

lemmas calendar_defs =
  YearFromTime_def YearFromDay_def DayFromYear_def MonthFromTime_def DateFromTime_def
  DayWithinYear_def InLeapYear_def DaysInYear_def MonthStart_def Let_def




lemma MakeDay_feb_2024: "MakeDay 2024 1 d = 19753 + d"
  by (simp add: MakeDay_def DayFromYear_def DaysInYear_def MonthStart_def Let_def)


lemma day_19737_is_jan15:
  "Day t = 19737 \<Longrightarrow> YearFromTime t = 2024 \<and> MonthFromTime t = 0 \<and> DateFromTime t = 15"
  by (simp add: calendar_defs)

lemma nextPayment_jan15_utc:
  "nextPayment utc_host (JStr ''2024-01-15'') = JDate (Some 1707955200000)"
proof -
  have nd: "new_Date utc_host (JStr ''2024-01-15'') = Some 1705276800000"
    by (simp add: utc_host_simps iso_date_values TimeClip_def)
  have lt: "LocalTime utc_host 1705276800000 = 1705276800000"
    by (simp add: LocalTime_def utc_host_simps)
  have d: "Day 1705276800000 = 19737"
    by (simp add: Day_def msPerDay_def)
  have w: "TimeWithinDay 1705276800000 = 0"
    by (simp add: TimeWithinDay_def msPerDay_def)
  from day_19737_is_jan15 [OF d] show ?thesis
    using nd lt w
    by (simp add: nextPayment_def getMonth_def setMonth_def Let_def MakeDay_feb_2024
        MakeDate_def UTC_def TimeClip_def msPerDay_def utc_host_simps)
qed

subsection \<open>The calendar functions agree with the calendar\<close>

text \<open>
  \<open>YearFromDay d\<close> is the year whose days include \<open>d\<close>, and it is the only such year:
  the estimate in its definition is within one year of it.
\<close>

lemma div_bounds:
  assumes "0 < (k::int)"
  shows "k * (a div k) \<le> a" and "a < k * (a div k) + k"
proof -
  have "k * (a div k) + a mod k = a" by simp
  moreover have "0 \<le> a mod k" "a mod k < k" using assms by simp_all
  ultimately show "k * (a div k) \<le> a" and "a < k * (a div k) + k" by linarith+
qed

lemma DayFromYear_bounds:
  "146097 * y - 287811596 \<le> 400 * DayFromYear y \<and>
   400 * DayFromYear y \<le> 146097 * y - 287810501"
proof -
  define q4 q100 q400 where "q4 = (y - 1969) div 4" and "q100 = (y - 1901) div 100"
    and "q400 = (y - 1601) div 400"
  have a: "4 * q4 \<le> y - 1969" "y - 1969 < 4 * q4 + 4"
    unfolding q4_def by (rule div_bounds, simp)+
  have b: "100 * q100 \<le> y - 1901" "y - 1901 < 100 * q100 + 100"
    unfolding q100_def by (rule div_bounds, simp)+
  have c: "400 * q400 \<le> y - 1601" "y - 1601 < 400 * q400 + 400"
    unfolding q400_def by (rule div_bounds, simp)+
  have "DayFromYear y = 365 * y - 719050 + q4 - q100 + q400"
    by (simp add: DayFromYear_def q4_def q100_def q400_def)
  with a b c show ?thesis by linarith
qed

lemma div_add_one:
  assumes k: "1 < (k::int)"
  shows "(a + 1) div k = a div k + (if (a + 1) mod k = 0 then 1 else 0)"
proof -
  define q r where "q = a div k" and "r = a mod k"
  have a: "a = k * q + r" "0 \<le> r" "r < k"
    using k by (simp_all add: q_def r_def)
  show ?thesis
  proof (cases "r + 1 < k")
    case True
    have e: "a + 1 = k * q + (r + 1)" using a by simp
    have r: "0 \<le> r + 1" "r + 1 < k"
      using a(2) True by linarith+
    have "(a + 1) div k = q"
      by (rule int_div_pos_eq [OF e r])
    moreover have "(a + 1) mod k = r + 1"
      by (rule int_mod_pos_eq [OF e r])
    ultimately show ?thesis using a(2) by (simp add: q_def)
  next
    case False
    with a(3) have "r + 1 = k" by linarith
    with a(1) have e: "a + 1 = k * (q + 1) + 0" by (simp add: algebra_simps)
    have r: "(0::int) \<le> 0" "0 < k"
      using k by simp_all
    have "(a + 1) div k = q + 1"
      by (rule int_div_pos_eq [OF e r])
    moreover have "(a + 1) mod k = 0"
      by (rule int_mod_pos_eq [OF e r])
    ultimately show ?thesis by (simp add: q_def)
  qed
qed

lemma leap_mods:
  "(y - 1968) mod 4 = y mod 4" "(y - 1900) mod 100 = y mod 100"
  "(y - 1600) mod 400 = y mod 400" for y :: int
proof -
  have "y - 1968 = y + (- 492) * 4" "y - 1900 = y + (- 19) * 100" "y - 1600 = y + (- 4) * 400"
    by simp_all
  then show "(y - 1968) mod 4 = y mod 4" "(y - 1900) mod 100 = y mod 100"
    "(y - 1600) mod 400 = y mod 400"
    by (simp_all only: mod_mult_self1)
qed

lemma leap_dvds:
  "y mod 400 = 0 \<Longrightarrow> y mod 100 = 0" "y mod 100 = 0 \<Longrightarrow> y mod 4 = 0" for y :: int
proof -
  have "(100::int) dvd 400" "(4::int) dvd 100" by simp_all
  then show "y mod 400 = 0 \<Longrightarrow> y mod 100 = 0" "y mod 100 = 0 \<Longrightarrow> y mod 4 = 0"
    by (auto simp: mod_eq_0_iff_dvd elim: dvd_trans)
qed

lemma DayFromYear_Suc: "DayFromYear (y + 1) = DayFromYear y + DaysInYear y"
proof -
  have a: "(y + 1 - 1969) div 4 = (y - 1969) div 4 + (if y mod 4 = 0 then 1 else 0)"
    using div_add_one [of 4 "y - 1969"] leap_mods(1) [of y] by (simp add: algebra_simps)
  have b: "(y + 1 - 1901) div 100 = (y - 1901) div 100 + (if y mod 100 = 0 then 1 else 0)"
    using div_add_one [of 100 "y - 1901"] leap_mods(2) [of y] by (simp add: algebra_simps)
  have c: "(y + 1 - 1601) div 400 = (y - 1601) div 400 + (if y mod 400 = 0 then 1 else 0)"
    using div_add_one [of 400 "y - 1601"] leap_mods(3) [of y] by (simp add: algebra_simps)
  show ?thesis
    unfolding DayFromYear_def DaysInYear_def a b c
    using leap_dvds [of y] by auto
qed


lemma DaysInYear_range: "365 \<le> DaysInYear y" "DaysInYear y \<le> 366"
  by (simp_all add: DaysInYear_def)

lemma div_between:
  assumes "m * k \<le> (x::int)" and "x < m * (k + 3)" and "0 < m"
  shows "k \<le> x div m" and "x div m \<le> k + 2"
proof -
  have "m * (x div m) \<le> x" "x < m * (x div m) + m"
    using div_bounds [OF assms(3), of x] by simp_all
  then have "m * k < m * (x div m + 1)" "m * (x div m) < m * (k + 3)"
    using assms(1,2) by (simp_all add: algebra_simps)
  then have "k < x div m + 1" "x div m < k + 3"
    using assms(3) by (simp_all only: mult_less_cancel_left_pos)
  then show "k \<le> x div m" and "x div m \<le> k + 2"
    by simp_all
qed

lemma YearFromDay_correct:
  assumes lo: "DayFromYear y \<le> d" and hi: "d < DayFromYear (y + 1)"
  shows "YearFromDay d = y"
proof -
  define e where "e = (400 * d) div 146097"
  have "146097 * (y - 1971) \<le> 400 * d"
    using DayFromYear_bounds [of y] lo by (simp add: algebra_simps)
  moreover have "400 * d < 146097 * (y - 1971 + 3)"
    using DayFromYear_bounds [of "y + 1"] hi by (simp add: algebra_simps)
  ultimately have e: "y - 1971 \<le> e" "e \<le> y - 1971 + 2"
    unfolding e_def by (rule div_between, simp)+
  then consider "e = y - 1971" | "e = y - 1970" | "e = y - 1969"
    by linarith
  then show ?thesis
  proof cases
    case 1
    have "DayFromYear (y - 1) \<le> DayFromYear y"
      using DayFromYear_Suc [of "y - 1"] DaysInYear_range(1) [of "y - 1"] by simp
    with lo have "\<not> d < DayFromYear (y - 1)" by simp
    with lo show ?thesis
      unfolding YearFromDay_def e_def [symmetric] 1 Let_def by simp
  next
    case 2
    with lo hi show ?thesis
      unfolding YearFromDay_def e_def [symmetric] 2 Let_def by simp
  next
    case 3
    have "d < DayFromYear (1 + y)"
      using hi by (simp add: add.commute)
    with lo show ?thesis
      unfolding YearFromDay_def e_def [symmetric] 3 Let_def by simp
  qed
qed


lemma YearFromDay_bracket:
  "DayFromYear (YearFromDay d) \<le> d \<and> d < DayFromYear (YearFromDay d + 1)"
proof -
  define e where "e = (400 * d) div 146097"
  have e: "146097 * e \<le> 400 * d" "400 * d < 146097 * e + 146097"
    unfolding e_def by (rule div_bounds, simp)+
  have lo: "DayFromYear (1970 + e - 1) \<le> d"
    using DayFromYear_bounds [of "1970 + e - 1"] e by (simp add: algebra_simps)
  have hi: "d < DayFromYear (1970 + e + 1 + 1)"
    using DayFromYear_bounds [of "1970 + e + 1 + 1"] e by (simp add: algebra_simps)
  show ?thesis
    unfolding YearFromDay_def e_def [symmetric] Let_def using lo hi by auto
qed

text \<open>
  The day that \<open>MakeDay\<close> makes of a year, a month and a day of that month is read back
  as that year, month and day, when the month has that day.
\<close>

lemma month_cases:
  assumes "0 \<le> (m::int)" and "m < 12"
  obtains "m = 0" | "m = 1" | "m = 2" | "m = 3" | "m = 4" | "m = 5" | "m = 6" | "m = 7"
    | "m = 8" | "m = 9" | "m = 10" | "m = 11"
proof -
  from assms have "m = 0 \<or> m = 1 \<or> m = 2 \<or> m = 3 \<or> m = 4 \<or> m = 5 \<or> m = 6 \<or> m = 7 \<or>
      m = 8 \<or> m = 9 \<or> m = 10 \<or> m = 11"
    by presburger
  with that show ?thesis by blast
qed

lemma calendar_of_MakeDay:
  assumes t: "Day t = MakeDay year month date"
    and d1: "1 \<le> date"
    and d2: "date \<le> DaysInMonth (year + month div 12) (month mod 12)"
  shows "YearFromTime t = year + month div 12 \<and> MonthFromTime t = month mod 12 \<and>
         DateFromTime t = date"
proof -
  define ym mn l where "ym = year + month div 12" and "mn = month mod 12"
    and "l = (if DaysInYear ym = 366 then 1 else (0::int))"
  have mn: "0 \<le> mn" "mn < 12"
    by (simp_all add: mn_def)
  have l: "l = 0 \<or> l = 1" and diy: "DaysInYear ym = 365 + l"
    by (auto simp: l_def DaysInYear_def)
  have day: "Day t = DayFromYear ym + MonthStart l mn + date - 1"
    using t by (simp add: MakeDay_def Let_def ym_def mn_def l_def)
  have dim: "date \<le> MonthStart l (mn + 1) - MonthStart l mn"
    using d2 by (simp add: DaysInMonth_def Let_def ym_def mn_def l_def)
  have w: "0 \<le> MonthStart l mn + date - 1 \<and> MonthStart l mn + date - 1 < 365 + l"
    using mn
  proof (cases mn rule: month_cases)
  qed (use d1 dim l in \<open>auto simp: MonthStart_def\<close>)
  have y: "YearFromTime t = ym"
    unfolding YearFromTime_def
    by (rule YearFromDay_correct) (use w day diy DayFromYear_Suc [of ym] in simp_all)
  have il: "InLeapYear t = l"
    by (simp add: InLeapYear_def y l_def)
  have dw: "DayWithinYear t = MonthStart l mn + date - 1"
    by (simp add: DayWithinYear_def y day)
  have m: "MonthFromTime t = mn"
    using mn
  proof (cases mn rule: month_cases)
  qed (use d1 dim l in \<open>auto simp: MonthFromTime_def il dw MonthStart_def Let_def\<close>)
  have "DateFromTime t = date"
    by (simp add: DateFromTime_def il dw m)
  with y m show ?thesis
    by (simp add: ym_def mn_def)
qed


lemma DayWithinYear_range: "0 \<le> DayWithinYear t \<and> DayWithinYear t < DaysInYear (YearFromTime t)"
  using YearFromDay_bracket [of "Day t"] DayFromYear_Suc [of "YearFromDay (Day t)"]
  by (simp add: DayWithinYear_def YearFromTime_def)

lemma InLeapYear_cases: "InLeapYear t = 0 \<or> InLeapYear t = 1"
  by (simp add: InLeapYear_def)

lemma DaysInYear_InLeapYear: "DaysInYear (YearFromTime t) = 365 + InLeapYear t"
  by (simp add: InLeapYear_def DaysInYear_def)

lemma DateFromTime_pos: "1 \<le> DateFromTime t"
  using DayWithinYear_range [of t] InLeapYear_cases [of t]
  by (auto simp: DateFromTime_def MonthFromTime_def MonthStart_def Let_def)

lemma MonthFromTime_range: "0 \<le> MonthFromTime t \<and> MonthFromTime t \<le> 11"
  by (simp add: MonthFromTime_def Let_def)

lemma TimeWithinDay_range: "0 \<le> TimeWithinDay t \<and> TimeWithinDay t < msPerDay"
  by (simp add: TimeWithinDay_def msPerDay_def)

text \<open>
  The derivation of the next payment date on a server with a fixed time zone offset:
  when the month after the (local) month of the date has the day of the month of the
  date, the result is the same day and time of day in that month; the month after
  December is January of the next year.
\<close>

lemma nextPayment_fixed_offset:
  assumes nd: "new_Date h x = Some t" and z: "localTZA h = (\<lambda>t u. c)"
    and fit: "DateFromTime (t + c) \<le>
              DaysInMonth (YearFromTime (t + c) + (MonthFromTime (t + c) + 1) div 12)
                          ((MonthFromTime (t + c) + 1) mod 12)"
  shows "\<exists>u. nextPayment h x = JDate (TimeClip u) \<and>
             YearFromTime (u + c) = YearFromTime (t + c) + (MonthFromTime (t + c) + 1) div 12 \<and>
             MonthFromTime (u + c) = (MonthFromTime (t + c) + 1) mod 12 \<and>
             DateFromTime (u + c) = DateFromTime (t + c) \<and>
             TimeWithinDay (u + c) = TimeWithinDay (t + c)"
proof -
  define lt where "lt = t + c"
  define nd' where
    "nd' = MakeDate (MakeDay (YearFromTime lt) (MonthFromTime lt + 1) (DateFromTime lt))
                    (TimeWithinDay lt)"
  have n: "nextPayment h x = JDate (TimeClip (nd' - c))"
    using nd z
    by (simp add: nextPayment_def getMonth_def setMonth_def Let_def LocalTime_def UTC_def
        nd'_def lt_def)
  have r: "0 \<le> TimeWithinDay lt" "TimeWithinDay lt < msPerDay"
    using TimeWithinDay_range [of lt] by simp_all
  have d: "Day nd' = MakeDay (YearFromTime lt) (MonthFromTime lt + 1) (DateFromTime lt)"
    unfolding nd'_def MakeDate_def by (rule day_split_Day [OF r])
  have w: "TimeWithinDay nd' = TimeWithinDay lt"
    unfolding nd'_def MakeDate_def by (rule day_split_TimeWithinDay [OF r])
  from calendar_of_MakeDay [OF d DateFromTime_pos] fit
  have "YearFromTime nd' = YearFromTime lt + (MonthFromTime lt + 1) div 12 \<and>
        MonthFromTime nd' = (MonthFromTime lt + 1) mod 12 \<and>
        DateFromTime nd' = DateFromTime lt"
    by (simp add: lt_def)
  with n w show ?thesis
    by (intro exI [of _ "nd' - c"]) (simp add: lt_def)
qed

section \<open>Adding a student\<close>

text \<open>
  The next payment date derived from a value that is no date is an Invalid Date, and an
  Invalid Date cannot be cast.
\<close>

lemma nextPayment_invalid: "new_Date h x = None \<Longrightarrow> nextPayment h x = JDate None"
  by (simp add: nextPayment_def getMonth_def setMonth_def Let_def)

lemma castDate_nextPayment:
  "castDate (nextPayment h x) =
     (if nextPayment h x = JDate None then None else Some (nextPayment h x))"
  by (simp add: nextPayment_def Let_def castDate_JDate split: option.splits)



text \<open>A request that lacks a required field is refused, and nothing is stored.\<close>

lemma addstudent_requires_fields:
  assumes "\<not> truthy (req ''name'') \<or> \<not> truthy (req ''phone'') \<or> \<not> truthy (req ''meals'') \<or>
           \<not> truthy (req ''startDate'') \<or> \<not> truthy (req ''endDate'') \<or>
           loose_null (req ''totalAmount'') \<or> loose_null (req ''paidAmount'')"
  shows "srv_post_studentsadd h st uid req =
           ((400, Msg ''message'' ''All fields are required''), st)"
    and "p0_post_students h st uid req =
           ((400, Msg ''message'' ''All fields are required''), st)"
  using assms by (auto simp: srv_post_studentsadd_def p0_post_students_def)

text \<open>When the document of the add handlers is valid, and what it holds.\<close>

lemma p0_add_doc_valid:
  "snd (new_Student h st uid req (js_sub h (req ''totalAmount'') (req ''paidAmount''))) \<longleftrightarrow>
     new_Date h (req ''startDate'') \<noteq> None \<and> new_Date h (req ''endDate'') \<noteq> None \<and>
     castNumber h (req ''totalAmount'') \<noteq> None \<and> castNumber h (req ''paidAmount'') \<noteq> None \<and>
     js_sub h (req ''totalAmount'') (req ''paidAmount'') \<noteq> JNaN"
  by (simp add: new_Student_valid castNumber_js_sub del: not_None_eq)

lemma srv_add_doc_valid:
  "snd (assign h ''nextPaymentDate'' (nextPayment h (req ''endDate''))
          (new_Student h st uid req (js_sub h (req ''totalAmount'') (req ''paidAmount''))))
   \<longleftrightarrow>
     new_Date h (req ''startDate'') \<noteq> None \<and> new_Date h (req ''endDate'') \<noteq> None \<and>
     nextPayment h (req ''endDate'') \<noteq> JDate None \<and>
     castNumber h (req ''totalAmount'') \<noteq> None \<and> castNumber h (req ''paidAmount'') \<noteq> None \<and>
     js_sub h (req ''totalAmount'') (req ''paidAmount'') \<noteq> JNaN"
proof -
  have "cast_path h ''nextPaymentDate'' v = castDate v" for v
    by (simp add: cast_path_def)
  then show ?thesis
    by (simp add: assign_valid p0_add_doc_valid castDate_nextPayment del: not_None_eq)
qed


lemma srv_add_doc_dates:
  assumes "nextPayment h (req ''endDate'') \<noteq> JDate None"
  shows "nextPaymentDate
           (fst (assign h ''nextPaymentDate'' (nextPayment h (req ''endDate''))
                   (new_Student h st uid req p))) = nextPayment h (req ''endDate'')"
    and "endDate
           (fst (assign h ''nextPaymentDate'' (nextPayment h (req ''endDate''))
                   (new_Student h st uid req p))) = JDate (new_Date h (req ''endDate''))"
proof -
  from assms have "new_Date h (req ''endDate'') \<noteq> None"
    using nextPayment_invalid [of h "req ''endDate''"] by blast
  with assms show
    "nextPaymentDate
       (fst (assign h ''nextPaymentDate'' (nextPayment h (req ''endDate''))
               (new_Student h st uid req p))) = nextPayment h (req ''endDate'')"
    "endDate
       (fst (assign h ''nextPaymentDate'' (nextPayment h (req ''endDate''))
               (new_Student h st uid req p))) = JDate (new_Date h (req ''endDate''))"
    by (auto simp: assign_nextPaymentDate assign_endDate new_Student_endDate
        castDate_nextPayment)
qed

text \<open>The values that the concrete host gives for the concrete requests.\<close>

lemma new_Date_utc:
  "dateParse utc_host ''2024-01-01'' = Some 1704067200000"
  "dateParse utc_host ''2024-01-15'' = Some 1705276800000"
  "dateParse utc_host ''2024-01-31'' = Some 1706659200000"
  "TimeClip 1704067200000 = Some 1704067200000"
  "TimeClip 1705276800000 = Some 1705276800000"
  "TimeClip 1706659200000 = Some 1706659200000"
  by (simp_all add: utc_host_simps iso_date_values TimeClip_def)








text \<open>
  What the two handlers store: \<open>Server.js\<close> sets the next payment date from the end
  date of the request; the second file does not set it when it adds a student.
\<close>

lemma srv_addstudent_nextPaymentDate:
  assumes "srv_post_studentsadd h st uid req = ((201, StudentReply m s), st')"
  shows "nextPaymentDate s = nextPayment h (req ''endDate'') \<and>
         endDate s = JDate (new_Date h (req ''endDate'')) \<and>
         students st' = students st @ [s]"
proof -
  let ?e = "assign h ''nextPaymentDate'' (nextPayment h (req ''endDate''))
              (new_Student h st uid req (js_sub h (req ''totalAmount'') (req ''paidAmount'')))"
  from assms have v: "snd ?e" and s: "s = fst ?e" and t: "students st' = students st @ [s]"
    by (auto simp: srv_post_studentsadd_def Student_insert_def Let_def
        split: if_splits option.splits)
  from v have "nextPayment h (req ''endDate'') \<noteq> JDate None"
    by (simp add: srv_add_doc_valid)
  from srv_add_doc_dates [where h = h and req = req, OF this] s t show ?thesis
    by simp
qed

lemma p0_addstudent_nextPaymentDate:
  assumes "p0_post_students h st uid req = ((200, StudentReply m s), st')"
  shows "nextPaymentDate s = JUndefined \<and> students st' = students st @ [s]"
  using assms
  by (auto simp: p0_post_students_def Student_insert_def Let_def new_Student_nextPaymentDate
      split: if_splits option.splits)

lemma srv_addstudent_advances_month:
  assumes "srv_post_studentsadd h st uid req = ((201, StudentReply m s), st')"
    and "new_Date h (req ''endDate'') = Some t" and "localTZA h = (\<lambda>t u. c)"
    and "DateFromTime (t + c) \<le>
         DaysInMonth (YearFromTime (t + c) + (MonthFromTime (t + c) + 1) div 12)
                     ((MonthFromTime (t + c) + 1) mod 12)"
  shows "\<exists>u. endDate s = JDate (Some t) \<and> nextPaymentDate s = JDate (TimeClip u) \<and>
             YearFromTime (u + c) = YearFromTime (t + c) + (MonthFromTime (t + c) + 1) div 12 \<and>
             MonthFromTime (u + c) = (MonthFromTime (t + c) + 1) mod 12 \<and>
             DateFromTime (u + c) = DateFromTime (t + c) \<and>
             TimeWithinDay (u + c) = TimeWithinDay (t + c)"
  using srv_addstudent_nextPaymentDate [OF assms(1)] nextPayment_fixed_offset [OF assms(2-4)]
  by (simp add: assms(2))

lemma add_req_jan15_doc:
  "new_Student utc_host empty_db 7 add_req_jan15 (JNum 700) =
     (\<lparr>student_id = 0, name = JStr ''Asha'', phone = JStr ''5550100'',
       meals = JStr ''lunch'', totalAmount = JNum 1000, paidAmount = JNum 300,
       pendingAmount = JNum 700, startDate = JDate (Some 1704067200000),
       endDate = JDate (Some 1705276800000), nextPaymentDate = JUndefined,
       vendorId = 7\<rparr>, True)"
proof -
  have e: "next_oid empty_db = 0"
    by (simp add: empty_db_def)
  have "new_Student utc_host empty_db 7 add_req_jan15 (JNum 700) =
     (\<lparr>student_id = next_oid empty_db, name = JStr ''Asha'', phone = JStr ''5550100'',
       meals = JStr ''lunch'', totalAmount = JNum 1000, paidAmount = JNum 300,
       pendingAmount = JNum 700, startDate = JDate (Some 1704067200000),
       endDate = JDate (Some 1705276800000), nextPaymentDate = JUndefined,
       vendorId = 7\<rparr>, True)"
    by (rule new_Student_plain)
       (simp_all add: add_req_jan15_simps new_Date_utc castNumber_JNum)
  then show ?thesis
    by (simp only: e)
qed


lemma srv_addstudent_jan15:
  "map nextPaymentDate (students (snd (srv_post_studentsadd utc_host empty_db 7 add_req_jan15)))
     = [JDate (iso_date ''2024-02-15'')]"
proof -
  have j: "js_sub utc_host (JNum 1000) (JNum 300) = JNum 700"
    using js_sub_numbers [of 1000 300 utc_host] by simp
  show ?thesis
    by (simp add: srv_post_studentsadd_def add_req_jan15_simps j add_req_jan15_doc
        Student_insert_def Let_def assign_paths castDate_JDate nextPayment_jan15_utc
        iso_date_values)
       (simp add: empty_db_def)
qed

text \<open>
  C5. AddStudent is to set \<open>nextPaymentDate\<close> to the end date advanced by one month.
  The handler of the second file does not: for the end date 2024-01-15 the record it
  creates has no next payment date, where \<open>Server.js\<close> stores 2024-02-15
  (\<open>srv_addstudent_jan15\<close>, and \<open>srv_addstudent_advances_month\<close> for every end date whose
  day of the month exists in the following month).
\<close>

theorem p0_addstudent_leaves_nextPaymentDate_unset:
  "p0_post_students utc_host empty_db 7 add_req_jan15 =
     ((200, StudentReply ''Student added successfully''
        \<lparr>student_id = 0, name = JStr ''Asha'', phone = JStr ''5550100'',
         meals = JStr ''lunch'', totalAmount = JNum 1000, paidAmount = JNum 300,
         pendingAmount = JNum 700, startDate = JDate (Some 1704067200000),
         endDate = JDate (Some 1705276800000), nextPaymentDate = JUndefined,
         vendorId = 7\<rparr>),
      \<lparr>vendors = [],
       students =
         [\<lparr>student_id = 0, name = JStr ''Asha'', phone = JStr ''5550100'',
           meals = JStr ''lunch'', totalAmount = JNum 1000, paidAmount = JNum 300,
           pendingAmount = JNum 700, startDate = JDate (Some 1704067200000),
           endDate = JDate (Some 1705276800000), nextPaymentDate = JUndefined,
           vendorId = 7\<rparr>],
       next_oid = 1\<rparr>)"
proof -
  have j: "js_sub utc_host (JNum 1000) (JNum 300) = JNum 700"
    using js_sub_numbers [of 1000 300 utc_host] by simp
  show ?thesis
    by (simp add: p0_post_students_def add_req_jan15_simps j add_req_jan15_doc
        Student_insert_def Let_def)
       (simp add: empty_db_def)
qed

theorem p0_addstudent_leaves_nextPaymentDate_unset_witness:
  "fst (fst (p0_post_students utc_host empty_db 7 add_req_jan15)) = 200 \<and>
   map endDate (students (snd (p0_post_students utc_host empty_db 7 add_req_jan15))) =
     [JDate (iso_date ''2024-01-15'')] \<and>
   map nextPaymentDate (students (snd (p0_post_students utc_host empty_db 7 add_req_jan15))) =
     [JUndefined]"
  using p0_addstudent_leaves_nextPaymentDate_unset
  by (simp add: iso_date_values)




section \<open>Updating a student\<close>

text \<open>A conditional assignment \<open>if (c) student.f = v\<close>.\<close>

lemma cond_assign_student_id:
  "student_id (fst (if c then assign h f v d else d)) = student_id (fst d)"
  by (simp add: assign_student_id)

lemma cond_assign_vendorId:
  "vendorId (fst (if c then assign h f v d else d)) = vendorId (fst d)"
  by (simp add: assign_vendorId)

lemma cond_assign_valid:
  "snd (if c then assign h f v d else d) \<longleftrightarrow> snd d \<and> (c \<longrightarrow> cast_path h f v \<noteq> None)"
  by (simp add: assign_valid)

lemma cond_assign_pendingAmount:
  "pendingAmount (fst (if c then assign h f v d else d)) =
     (if c \<and> f = ''pendingAmount''
      then (case castNumber h v of None \<Rightarrow> pendingAmount (fst d) | Some v' \<Rightarrow> v')
      else pendingAmount (fst d))"
  by (simp add: assign_pendingAmount)

lemma cond_assign_endDate:
  "endDate (fst (if c then assign h f v d else d)) =
     (if c \<and> f = ''endDate''
      then (case castDate v of None \<Rightarrow> endDate (fst d) | Some v' \<Rightarrow> v')
      else endDate (fst d))"
  by (simp add: assign_endDate)

lemma cast_path_simps:
  "cast_path h ''name'' v = castString h v" "cast_path h ''phone'' v = castString h v"
  "cast_path h ''meals'' v = castString h v"
  "cast_path h ''totalAmount'' v = castNumber h v"
  "cast_path h ''paidAmount'' v = castNumber h v"
  "cast_path h ''pendingAmount'' v = castNumber h v"
  "cast_path h ''startDate'' v = castDate v" "cast_path h ''endDate'' v = castDate v"
  "cast_path h ''nextPaymentDate'' v = castDate v"
  by (simp_all add: cast_path_def)

lemma castString_not_None: "castString h v \<noteq> None"
  using castString_Some [of h v] by auto

lemma castDate_new_Date: "castDate (JDate (new_Date h x)) \<noteq> None \<longleftrightarrow> new_Date h x \<noteq> None"
  by (simp add: castDate_JDate split: option.splits)

text \<open>The next payment date depends on its argument through the Date object only.\<close>

lemma nextPayment_cong: "new_Date h x = new_Date h y \<Longrightarrow> nextPayment h x = nextPayment h y"
  by (simp add: nextPayment_def)

lemma nextPayment_JDate: "nextPayment h (JDate (new_Date h x)) = nextPayment h x"
  by (rule nextPayment_cong) simp

text \<open>The document after the loop over the allow-list of \<open>Server.js\<close>.\<close>

lemma fold_allowedFields:
  "fold (apply_field h u) allowedFields d =
     apply_field h u ''pendingAmount'' (apply_field h u ''paidAmount''
       (apply_field h u ''totalAmount'' (apply_field h u ''endDate''
         (apply_field h u ''startDate'' (apply_field h u ''meals''
           (apply_field h u ''phone'' (apply_field h u ''name'' d)))))))"
  by (simp add: allowedFields_def)

lemma apply_field_student_id: "student_id (fst (apply_field h u f d)) = student_id (fst d)"
  by (simp add: apply_field_def assign_student_id)

lemma apply_field_vendorId: "vendorId (fst (apply_field h u f d)) = vendorId (fst d)"
  by (simp add: apply_field_def assign_vendorId)

lemma fold_apply_field_student_id:
  "student_id (fst (fold (apply_field h u) fs d)) = student_id (fst d)"
  by (induction fs arbitrary: d) (simp_all add: apply_field_student_id)

lemma fold_apply_field_vendorId:
  "vendorId (fst (fold (apply_field h u) fs d)) = vendorId (fst d)"
  by (induction fs arbitrary: d) (simp_all add: apply_field_vendorId)

lemma apply_field_pendingAmount:
  "pendingAmount (fst (apply_field h u f d)) =
     (if u f \<noteq> JUndefined \<and> f = ''pendingAmount''
      then (case castNumber h (u f) of None \<Rightarrow> pendingAmount (fst d) | Some v \<Rightarrow> v)
      else pendingAmount (fst d))"
  by (auto simp: apply_field_def assign_pendingAmount)

lemma apply_field_valid:
  "snd (apply_field h u f d) \<longleftrightarrow>
     snd d \<and>
     (u f \<noteq> JUndefined \<longrightarrow>
        (if f = ''startDate'' \<or> f = ''endDate'' then new_Date h (u f) \<noteq> None
         else cast_path h f (u f) \<noteq> None))"
  by (auto simp: apply_field_def assign_valid cast_path_simps castDate_new_Date
      simp del: not_None_eq)

lemma fold_allowedFields_pendingAmount:
  "pendingAmount (fst (fold (apply_field h u) allowedFields d)) =
     (if u ''pendingAmount'' \<noteq> JUndefined
      then (case castNumber h (u ''pendingAmount'') of
              None \<Rightarrow> pendingAmount (fst d) | Some v \<Rightarrow> v)
      else pendingAmount (fst d))"
  by (simp add: fold_allowedFields apply_field_pendingAmount split: option.splits)

lemma fold_allowedFields_valid:
  "snd (fold (apply_field h u) allowedFields d) \<longleftrightarrow>
     snd d \<and>
     (u ''startDate'' = JUndefined \<or> new_Date h (u ''startDate'') \<noteq> None) \<and>
     (u ''endDate'' = JUndefined \<or> new_Date h (u ''endDate'') \<noteq> None) \<and>
     (u ''totalAmount'' = JUndefined \<or> castNumber h (u ''totalAmount'') \<noteq> None) \<and>
     (u ''paidAmount'' = JUndefined \<or> castNumber h (u ''paidAmount'') \<noteq> None) \<and>
     (u ''pendingAmount'' = JUndefined \<or> castNumber h (u ''pendingAmount'') \<noteq> None)"
  by (simp add: fold_allowedFields apply_field_valid cast_path_simps castString_not_None
      del: not_None_eq)
     blast

text \<open>Saving a document that was read from the store.\<close>

lemma Student_save_valid:
  "Student_save st (s, True) =
     Some (st\<lparr>students := map (\<lambda>x. if student_id x = student_id s then s else x)
                             (students st)\<rparr>)"
  by (simp add: Student_save_def)


lemma Student_save_doc:
  "Student_save st d = (if snd d then Student_save st (fst d, True) else None)"
  by (simp add: Student_save_def)

lemma set_Student_save:
  assumes "found \<in> set (students st)" and "student_id s = student_id found"
    and "Student_save st (s, True) = Some st'"
  shows "s \<in> set (students st')"
  using assms by (force simp: Student_save_def)

lemma Student_save_keeps_owner:
  assumes d: "distinct (map student_id (students st))"
    and f: "found \<in> set (students st)"
    and i: "student_id (fst dc) = student_id found"
    and v: "vendorId (fst dc) = vendorId found"
    and s: "Student_save st dc = Some st'"
  shows "map vendorId (students st') = map vendorId (students st) \<and>
         map student_id (students st') = map student_id (students st) \<and>
         next_oid st' = next_oid st"
proof -
  have u: "x = found" if "x \<in> set (students st)" and "student_id x = student_id found" for x
    using that d f by (auto simp: distinct_map dest: inj_onD)
  from s i have st': "students st' =
      map (\<lambda>x. if student_id x = student_id found then fst dc else x) (students st)"
    "next_oid st' = next_oid st"
    by (auto simp: Student_save_def split: if_splits)
  have a: "vendorId (if student_id x = student_id found then fst dc else x) = vendorId x"
    if "x \<in> set (students st)" for x
    using u [OF that] v by (cases "student_id x = student_id found") simp_all
  have b: "student_id (if student_id x = student_id found then fst dc else x) = student_id x"
    for x
    using i by simp
  from a b show ?thesis
    unfolding st' by (simp add: comp_def)
qed

text \<open>What the update handler of \<open>Server.js\<close> does with a student it found.\<close>

lemma srv_put_found:
  assumes "castObjectId h sid = Some i" and "Student_findOne st i uid = Some found"
  shows "\<exists>d. srv_put_students h st uid sid req =
               (case Student_save st d of
                  None \<Rightarrow> ((500, Msg ''message'' ''Error updating student''), st)
                | Some st' \<Rightarrow>
                    ((200, StudentReply ''Student updated successfully'' (fst d)), st')) \<and>
             student_id (fst d) = student_id found \<and> vendorId (fst d) = vendorId found \<and>
             pendingAmount (fst d) =
               (if req ''pendingAmount'' \<noteq> JUndefined
                then (case castNumber h (req ''pendingAmount'') of
                        None \<Rightarrow> pendingAmount found | Some v \<Rightarrow> v)
                else pendingAmount found) \<and>
             (snd d \<longleftrightarrow>
                (req ''startDate'' = JUndefined \<or> new_Date h (req ''startDate'') \<noteq> None) \<and>
                (req ''endDate'' = JUndefined \<or> new_Date h (req ''endDate'') \<noteq> None) \<and>
                (req ''totalAmount'' = JUndefined \<or>
                   castNumber h (req ''totalAmount'') \<noteq> None) \<and>
                (req ''paidAmount'' = JUndefined \<or>
                   castNumber h (req ''paidAmount'') \<noteq> None) \<and>
                (req ''pendingAmount'' = JUndefined \<or>
                   castNumber h (req ''pendingAmount'') \<noteq> None) \<and>
                (truthy (req ''endDate'') \<longrightarrow> nextPayment h (req ''endDate'') \<noteq> JDate None))"
proof -
  define d0 where "d0 = fold (apply_field h req) allowedFields (found, True)"
  define d1 where
    "d1 = (if truthy (req ''endDate'')
           then assign h ''nextPaymentDate'' (nextPayment h (req ''endDate'')) d0 else d0)"
  have r: "srv_put_students h st uid sid req =
             (case Student_save st d1 of
                None \<Rightarrow> ((500, Msg ''message'' ''Error updating student''), st)
              | Some st' \<Rightarrow>
                  ((200, StudentReply ''Student updated successfully'' (fst d1)), st'))"
    using assms unfolding d1_def d0_def by (simp add: srv_put_students_def Let_def)
  have i: "student_id (fst d1) = student_id found" "vendorId (fst d1) = vendorId found"
    by (simp_all add: d1_def d0_def cond_assign_student_id cond_assign_vendorId
        fold_apply_field_student_id fold_apply_field_vendorId)
  have p: "pendingAmount (fst d1) =
             (if req ''pendingAmount'' \<noteq> JUndefined
              then (case castNumber h (req ''pendingAmount'') of
                      None \<Rightarrow> pendingAmount found | Some v \<Rightarrow> v)
              else pendingAmount found)"
    unfolding d1_def cond_assign_pendingAmount d0_def fold_allowedFields_pendingAmount
    by (simp split: option.splits)
  have v: "snd d1 \<longleftrightarrow>
             (req ''startDate'' = JUndefined \<or> new_Date h (req ''startDate'') \<noteq> None) \<and>
             (req ''endDate'' = JUndefined \<or> new_Date h (req ''endDate'') \<noteq> None) \<and>
             (req ''totalAmount'' = JUndefined \<or> castNumber h (req ''totalAmount'') \<noteq> None) \<and>
             (req ''paidAmount'' = JUndefined \<or> castNumber h (req ''paidAmount'') \<noteq> None) \<and>
             (req ''pendingAmount'' = JUndefined \<or>
                castNumber h (req ''pendingAmount'') \<noteq> None) \<and>
             (truthy (req ''endDate'') \<longrightarrow> nextPayment h (req ''endDate'') \<noteq> JDate None)"
    unfolding d1_def cond_assign_valid d0_def fold_allowedFields_valid
    by (simp add: cast_path_simps castDate_nextPayment del: not_None_eq)
  from r i p v show ?thesis
    by blast
qed

text \<open>What the update handler of the second file does with a student it found.\<close>

lemma p0_put_found:
  assumes "castObjectId h sid = Some i" and "Student_findOne st i uid = Some found"
  shows "\<exists>d. p0_put_students h st uid sid req =
               (case Student_save st d of
                  None \<Rightarrow> ((500, Msg ''error'' ''Error updating student''), st)
                | Some st' \<Rightarrow>
                    ((200, StudentReply ''Student updated successfully'' (fst d)), st')) \<and>
             student_id (fst d) = student_id found \<and> vendorId (fst d) = vendorId found \<and>
             pendingAmount (fst d) =
               (if \<not> loose_null (req ''totalAmount'') \<and> \<not> loose_null (req ''paidAmount'')
                then (case castNumber h (js_sub h (req ''totalAmount'') (req ''paidAmount'')) of
                        None \<Rightarrow> pendingAmount found | Some v \<Rightarrow> v)
                else pendingAmount found) \<and>
             (snd d \<longleftrightarrow>
                (loose_null (req ''totalAmount'') \<or>
                   castNumber h (req ''totalAmount'') \<noteq> None) \<and>
                (loose_null (req ''paidAmount'') \<or>
                   castNumber h (req ''paidAmount'') \<noteq> None) \<and>
                (\<not> truthy (req ''startDate'') \<or> new_Date h (req ''startDate'') \<noteq> None) \<and>
                (loose_null (req ''totalAmount'') \<or> loose_null (req ''paidAmount'') \<or>
                   js_sub h (req ''totalAmount'') (req ''paidAmount'') \<noteq> JNaN) \<and>
                (if truthy (req ''endDate'')
                 then nextPayment h (req ''endDate'') \<noteq> JDate None
                 else \<not> truthy (endDate found) \<or>
                      nextPayment h (endDate found) \<noteq> JDate None))"
proof -
  define d1 where
    "d1 = (if truthy (req ''name'') then assign h ''name'' (req ''name'') (found, True)
           else (found, True))"
  define d2 where
    "d2 = (if truthy (req ''phone'') then assign h ''phone'' (req ''phone'') d1 else d1)"
  define d3 where
    "d3 = (if truthy (req ''meals'') then assign h ''meals'' (req ''meals'') d2 else d2)"
  define d4 where
    "d4 = (if \<not> loose_null (req ''totalAmount'')
           then assign h ''totalAmount'' (req ''totalAmount'') d3 else d3)"
  define d5 where
    "d5 = (if \<not> loose_null (req ''paidAmount'')
           then assign h ''paidAmount'' (req ''paidAmount'') d4 else d4)"
  define d6 where
    "d6 = (if truthy (req ''startDate'')
           then assign h ''startDate'' (JDate (new_Date h (req ''startDate''))) d5 else d5)"
  define d7 where
    "d7 = (if truthy (req ''endDate'')
           then assign h ''endDate'' (JDate (new_Date h (req ''endDate''))) d6 else d6)"
  define d8 where
    "d8 = (if \<not> loose_null (req ''totalAmount'') \<and> \<not> loose_null (req ''paidAmount'')
           then assign h ''pendingAmount''
                  (js_sub h (req ''totalAmount'') (req ''paidAmount'')) d7
           else d7)"
  define d9 where
    "d9 = (if truthy (endDate (fst d8))
           then assign h ''nextPaymentDate'' (nextPayment h (endDate (fst d8))) d8 else d8)"
  note ds = d9_def d8_def d7_def d6_def d5_def d4_def d3_def d2_def d1_def
  have r: "p0_put_students h st uid sid req =
             (case Student_save st d9 of
                None \<Rightarrow> ((500, Msg ''error'' ''Error updating student''), st)
              | Some st' \<Rightarrow>
                  ((200, StudentReply ''Student updated successfully'' (fst d9)), st'))"
    using assms unfolding ds by (simp add: p0_put_students_def Let_def)
  have i: "student_id (fst d9) = student_id found" "vendorId (fst d9) = vendorId found"
    unfolding ds cond_assign_student_id cond_assign_vendorId by simp_all
  have p: "pendingAmount (fst d9) =
             (if \<not> loose_null (req ''totalAmount'') \<and> \<not> loose_null (req ''paidAmount'')
              then (case castNumber h (js_sub h (req ''totalAmount'') (req ''paidAmount'')) of
                      None \<Rightarrow> pendingAmount found | Some v \<Rightarrow> v)
              else pendingAmount found)"
    unfolding ds cond_assign_pendingAmount by (simp split: option.splits)
  have e6: "endDate (fst d6) = endDate found"
    unfolding d6_def d5_def d4_def d3_def d2_def d1_def cond_assign_endDate by simp
  have e8: "endDate (fst d8) =
              (if truthy (req ''endDate'')
               then (case new_Date h (req ''endDate'') of
                       None \<Rightarrow> endDate found | Some t \<Rightarrow> JDate (Some t))
               else endDate found)"
    unfolding d8_def d7_def cond_assign_endDate e6
    by (simp add: castDate_JDate split: option.splits)
  have v6: "snd d6 \<longleftrightarrow>
              (loose_null (req ''totalAmount'') \<or> castNumber h (req ''totalAmount'') \<noteq> None) \<and>
              (loose_null (req ''paidAmount'') \<or> castNumber h (req ''paidAmount'') \<noteq> None) \<and>
              (\<not> truthy (req ''startDate'') \<or> new_Date h (req ''startDate'') \<noteq> None)"
    unfolding d6_def d5_def d4_def d3_def d2_def d1_def cond_assign_valid
    by (simp add: cast_path_simps castString_not_None castDate_new_Date del: not_None_eq)
       blast
  have v8: "snd d8 \<longleftrightarrow>
              snd d6 \<and> (\<not> truthy (req ''endDate'') \<or> new_Date h (req ''endDate'') \<noteq> None) \<and>
              (loose_null (req ''totalAmount'') \<or> loose_null (req ''paidAmount'') \<or>
                 js_sub h (req ''totalAmount'') (req ''paidAmount'') \<noteq> JNaN)"
    unfolding d8_def d7_def cond_assign_valid
    by (auto simp: cast_path_simps castDate_new_Date castNumber_js_sub
        simp del: not_None_eq)
  have v9: "snd d9 \<longleftrightarrow>
              snd d8 \<and>
              (truthy (endDate (fst d8)) \<longrightarrow> nextPayment h (endDate (fst d8)) \<noteq> JDate None)"
    unfolding d9_def cond_assign_valid
    by (simp add: cast_path_simps castDate_nextPayment del: not_None_eq)
  have n: "(\<not> truthy (req ''endDate'') \<or> new_Date h (req ''endDate'') \<noteq> None) \<and>
           (truthy (endDate (fst d8)) \<longrightarrow> nextPayment h (endDate (fst d8)) \<noteq> JDate None) \<longleftrightarrow>
           (if truthy (req ''endDate'')
            then nextPayment h (req ''endDate'') \<noteq> JDate None
            else \<not> truthy (endDate found) \<or> nextPayment h (endDate found) \<noteq> JDate None)"
  proof (cases "truthy (req ''endDate'')")
    case False
    then show ?thesis by (auto simp: e8)
  next
    case True
    show ?thesis
    proof (cases "new_Date h (req ''endDate'')")
      case None
      with True show ?thesis
        by (simp add: nextPayment_invalid)
    next
      case (Some t)
      have "nextPayment h (JDate (Some t)) = nextPayment h (req ''endDate'')"
        using nextPayment_JDate [of h "req ''endDate''"] by (simp add: Some)
      with True Some show ?thesis
        by (simp add: e8)
    qed
  qed
  have v: "snd d9 \<longleftrightarrow>
             (loose_null (req ''totalAmount'') \<or> castNumber h (req ''totalAmount'') \<noteq> None) \<and>
             (loose_null (req ''paidAmount'') \<or> castNumber h (req ''paidAmount'') \<noteq> None) \<and>
             (\<not> truthy (req ''startDate'') \<or> new_Date h (req ''startDate'') \<noteq> None) \<and>
             (loose_null (req ''totalAmount'') \<or> loose_null (req ''paidAmount'') \<or>
                js_sub h (req ''totalAmount'') (req ''paidAmount'') \<noteq> JNaN) \<and>
             (if truthy (req ''endDate'')
              then nextPayment h (req ''endDate'') \<noteq> JDate None
              else \<not> truthy (endDate found) \<or> nextPayment h (endDate found) \<noteq> JDate None)"
    unfolding v9 v8 v6 using n by blast
  from r i p v show ?thesis
    by blast
qed

text \<open>
  The update handler of \<open>Server.js\<close> takes the pending amount from the request and
  never derives it from the two amounts.
\<close>

lemma srv_put_takes_pending:
  assumes "castObjectId h sid = Some i" and "Student_findOne st i uid = Some found"
    and "srv_put_students h st uid sid req = ((200, StudentReply m s), st')"
  shows "if req ''pendingAmount'' = JUndefined then pendingAmount s = pendingAmount found
         else castNumber h (req ''pendingAmount'') = Some (pendingAmount s)"
proof -
  obtain d where d: "srv_put_students h st uid sid req =
      (case Student_save st d of
         None \<Rightarrow> ((500, Msg ''message'' ''Error updating student''), st)
       | Some st' \<Rightarrow> ((200, StudentReply ''Student updated successfully'' (fst d)), st'))"
    "pendingAmount (fst d) =
       (if req ''pendingAmount'' \<noteq> JUndefined
        then (case castNumber h (req ''pendingAmount'') of
                None \<Rightarrow> pendingAmount found | Some v \<Rightarrow> v)
        else pendingAmount found)"
    "snd d \<longrightarrow>
       (req ''pendingAmount'' = JUndefined \<or> castNumber h (req ''pendingAmount'') \<noteq> None)"
    using srv_put_found [OF assms(1,2), of req] by blast
  from d(1) assms(3) have "snd d" and "s = fst d"
    by (auto simp: Student_save_def split: if_splits)
  with d(2,3) show ?thesis
    by auto
qed






lemma castObjectId_utc:
  "castObjectId utc_host asha_id = Some 11" "castObjectId utc_host ravi_id = Some 12"
  "castObjectId utc_host ''abc'' = None"
  by (simp_all add: utc_host_simps hex24_values)






section \<open>Students that are not there\<close>

lemma findOneAndDelete_None:
  assumes "Student_findOne st i uid = None"
  shows "Student_findOneAndDelete st i uid = (None, st)"
  using assms by (simp add: Student_findOneAndDelete_def)

lemma findOne_after_delete:
  assumes d: "distinct (map student_id (students st))"
  shows "Student_findOne (snd (Student_findOneAndDelete st i uid)) i uid = None"
proof (cases "Student_findOne st i uid")
  case None
  then show ?thesis by (simp add: Student_findOneAndDelete_def)
next
  case (Some s)
  then have s: "s \<in> set (students st)" "student_id s = i"
    by (simp_all add: Student_findOne_Some)
  from d have ds: "distinct (students st)"
    by (simp add: distinct_map)
  have "x = s" if "x \<in> set (students st)" and "student_id x = i" for x
    using that d s by (auto simp: distinct_map dest: inj_onD)
  then have "\<not> (\<exists>x\<in>set (remove1 s (students st)). student_id x = i \<and> vendorId x = uid)"
    using ds by auto
  then show ?thesis
    using Some by (simp add: Student_findOneAndDelete_def Student_findOne_None)
qed

lemma delete_students_store:
  assumes "castObjectId h sid = Some i"
  shows "snd (srv_delete_students h st uid sid) = snd (Student_findOneAndDelete st i uid)"
    and "snd (p0_delete_students h st uid sid) = snd (Student_findOneAndDelete st i uid)"
  using assms
  by (simp_all add: srv_delete_students_def p0_delete_students_def
      split: prod.splits option.splits)

text \<open>
  C8, as stated: every UpdateStudent or DeleteStudent call whose student identifier does
  not exist is answered with NotFound. The identifier arrives as a string of the route,
  and a string that is no identifier makes the look-up throw: for the identifier \<open>abc\<close>,
  which no student has, all four handlers answer with status 500.
\<close>

theorem malformed_id_is_server_error:
  "castObjectId utc_host ''abc'' = None \<and>
   srv_put_students utc_host two_students_db 7 ''abc'' pay_req =
     ((500, Msg ''message'' ''Error updating student''), two_students_db) \<and>
   p0_put_students utc_host two_students_db 7 ''abc'' pay_req =
     ((500, Msg ''error'' ''Error updating student''), two_students_db) \<and>
   srv_delete_students utc_host two_students_db 7 ''abc'' =
     ((500, Msg ''message'' ''Error deleting student''), two_students_db) \<and>
   p0_delete_students utc_host two_students_db 7 ''abc'' =
     ((500, Msg ''error'' ''Error deleting student''), two_students_db)"
  by (simp add: srv_put_students_def p0_put_students_def srv_delete_students_def
      p0_delete_students_def castObjectId_utc)

text \<open>
  C8, amended: for every UpdateStudent or DeleteStudent call whose student identifier is
  well formed, and is the identifier of no student or of a student of another vendor,
  both files answer 404 \<open>Student not found\<close> and leave the store as it was. For every
  such call whose identifier is not well formed, both files answer with status 500 and
  leave the store as it was. In a store whose identifiers are distinct, deleting the
  same well-formed identifier a second time answers 404 and changes nothing.
\<close>

theorem missing_student_not_found:
  "(castObjectId h sid = Some i \<and>
    \<not> (\<exists>s\<in>set (students st). student_id s = i \<and> vendorId s = uid) \<longrightarrow>
      srv_put_students h st uid sid req = ((404, Msg ''message'' ''Student not found''), st) \<and>
      p0_put_students h st uid sid req = ((404, Msg ''message'' ''Student not found''), st) \<and>
      srv_delete_students h st uid sid = ((404, Msg ''message'' ''Student not found''), st) \<and>
      p0_delete_students h st uid sid = ((404, Msg ''message'' ''Student not found''), st)) \<and>
   (castObjectId h sid = None \<longrightarrow>
      srv_put_students h st uid sid req =
        ((500, Msg ''message'' ''Error updating student''), st) \<and>
      p0_put_students h st uid sid req =
        ((500, Msg ''error'' ''Error updating student''), st) \<and>
      srv_delete_students h st uid sid =
        ((500, Msg ''message'' ''Error deleting student''), st) \<and>
      p0_delete_students h st uid sid =
        ((500, Msg ''error'' ''Error deleting student''), st)) \<and>
   (castObjectId h sid \<noteq> None \<and> distinct (map student_id (students st)) \<longrightarrow>
      srv_delete_students h (snd (srv_delete_students h st uid sid)) uid sid =
        ((404, Msg ''message'' ''Student not found''),
         snd (srv_delete_students h st uid sid)) \<and>
      p0_delete_students h (snd (p0_delete_students h st uid sid)) uid sid =
        ((404, Msg ''message'' ''Student not found''),
         snd (p0_delete_students h st uid sid)))"
proof (intro conjI impI)
  assume a: "castObjectId h sid = Some i \<and>
             \<not> (\<exists>s\<in>set (students st). student_id s = i \<and> vendorId s = uid)"
  then have c: "castObjectId h sid = Some i" and n: "Student_findOne st i uid = None"
    by (simp_all add: Student_findOne_None)
  show "srv_put_students h st uid sid req = ((404, Msg ''message'' ''Student not found''), st)"
    using c n by (simp add: srv_put_students_def)
  show "p0_put_students h st uid sid req = ((404, Msg ''message'' ''Student not found''), st)"
    using c n by (simp add: p0_put_students_def)
  show "srv_delete_students h st uid sid = ((404, Msg ''message'' ''Student not found''), st)"
    using c n by (simp add: srv_delete_students_def findOneAndDelete_None)
  show "p0_delete_students h st uid sid = ((404, Msg ''message'' ''Student not found''), st)"
    using c n by (simp add: p0_delete_students_def findOneAndDelete_None)
next
  assume c: "castObjectId h sid = None"
  show "srv_put_students h st uid sid req =
          ((500, Msg ''message'' ''Error updating student''), st)"
    using c by (simp add: srv_put_students_def)
  show "p0_put_students h st uid sid req =
          ((500, Msg ''error'' ''Error updating student''), st)"
    using c by (simp add: p0_put_students_def)
  show "srv_delete_students h st uid sid =
          ((500, Msg ''message'' ''Error deleting student''), st)"
    using c by (simp add: srv_delete_students_def)
  show "p0_delete_students h st uid sid =
          ((500, Msg ''error'' ''Error deleting student''), st)"
    using c by (simp add: p0_delete_students_def)
next
  assume a: "castObjectId h sid \<noteq> None \<and> distinct (map student_id (students st))"
  then obtain j where c: "castObjectId h sid = Some j"
    by auto
  from a have d: "distinct (map student_id (students st))"
    by simp
  have n: "Student_findOne (snd (Student_findOneAndDelete st j uid)) j uid = None"
    using d by (rule findOne_after_delete)
  show "srv_delete_students h (snd (srv_delete_students h st uid sid)) uid sid =
        ((404, Msg ''message'' ''Student not found''), snd (srv_delete_students h st uid sid))"
    unfolding delete_students_store [OF c] using c n
    by (simp add: srv_delete_students_def findOneAndDelete_None)
  show "p0_delete_students h (snd (p0_delete_students h st uid sid)) uid sid =
        ((404, Msg ''message'' ''Student not found''), snd (p0_delete_students h st uid sid))"
    unfolding delete_students_store [OF c] using c n
    by (simp add: p0_delete_students_def findOneAndDelete_None)
qed

lemma delete_asha:
  "srv_delete_students utc_host two_students_db 7 asha_id =
     ((200, Msg ''message'' ''Student deleted successfully''),
      \<lparr>vendors = [], students = [ravi], next_oid = 13\<rparr>)"
  "p0_delete_students utc_host two_students_db 7 asha_id =
     ((200, Msg ''message'' ''Student deleted successfully''),
      \<lparr>vendors = [], students = [ravi], next_oid = 13\<rparr>)"
  by (simp_all add: srv_delete_students_def p0_delete_students_def castObjectId_utc
      Student_findOneAndDelete_def findOne_asha)
     (simp_all add: two_students_db_def)

text \<open>
  The witness: vendor 7 asks for the student of vendor 8 and is answered 404; the
  first delete of the own student succeeds and the second is answered 404; the
  identifier \<open>abc\<close> is answered with status 500.
\<close>

theorem missing_student_not_found_witness:
  "castObjectId utc_host ravi_id = Some 12 \<and>
   \<not> (\<exists>s\<in>set (students two_students_db). student_id s = 12 \<and> vendorId s = 7) \<and>
   srv_put_students utc_host two_students_db 7 ravi_id pay_req =
     ((404, Msg ''message'' ''Student not found''), two_students_db) \<and>
   p0_put_students utc_host two_students_db 7 ravi_id pay_req =
     ((404, Msg ''message'' ''Student not found''), two_students_db) \<and>
   srv_delete_students utc_host two_students_db 7 ravi_id =
     ((404, Msg ''message'' ''Student not found''), two_students_db) \<and>
   p0_delete_students utc_host two_students_db 7 ravi_id =
     ((404, Msg ''message'' ''Student not found''), two_students_db) \<and>
   castObjectId utc_host ''abc'' = None \<and>
   srv_delete_students utc_host two_students_db 7 ''abc'' =
     ((500, Msg ''message'' ''Error deleting student''), two_students_db) \<and>
   p0_put_students utc_host two_students_db 7 ''abc'' pay_req =
     ((500, Msg ''error'' ''Error updating student''), two_students_db) \<and>
   castObjectId utc_host asha_id = Some 11 \<and>
   distinct (map student_id (students two_students_db)) \<and>
   fst (srv_delete_students utc_host two_students_db 7 asha_id) =
     (200, Msg ''message'' ''Student deleted successfully'') \<and>
   fst (srv_delete_students utc_host
          (snd (srv_delete_students utc_host two_students_db 7 asha_id)) 7 asha_id) =
     (404, Msg ''message'' ''Student not found'') \<and>
   fst (p0_delete_students utc_host two_students_db 7 asha_id) =
     (200, Msg ''message'' ''Student deleted successfully'') \<and>
   fst (p0_delete_students utc_host
          (snd (p0_delete_students utc_host two_students_db 7 asha_id)) 7 asha_id) =
     (404, Msg ''message'' ''Student not found'')"
proof -
  have a: "\<not> (\<exists>s\<in>set (students two_students_db). student_id s = 12 \<and> vendorId s = 7)"
    by (simp add: two_students_db_def asha_def ravi_def)
  have d: "distinct (map student_id (students two_students_db))"
    by (simp add: two_students_db_def asha_def ravi_def)
  from missing_student_not_found [of utc_host ravi_id 12 two_students_db 7 pay_req]
       missing_student_not_found [of utc_host "''abc''" 0 two_students_db 7 pay_req]
       missing_student_not_found [of utc_host asha_id 11 two_students_db 7 pay_req]
       a d
  show ?thesis
    by (simp add: castObjectId_utc delete_asha(1) delete_asha(2))
qed

section \<open>Listing the students\<close>

text \<open>
  C9. For every ListStudents call, both files answer with exactly the records of the
  store whose \<open>vendorId\<close> is the caller's identifier: each of them as often as the store
  holds it, and no record of another vendor.
\<close>

theorem list_students_exactly_own:
  "(\<exists>r. srv_get_students st uid = ((200, StudentList r), st) \<and>
        set r = {s \<in> set (students st). vendorId s = uid} \<and>
        (\<forall>s. count_list r s = (if vendorId s = uid then count_list (students st) s else 0))) \<and>
   (\<exists>r. p0_get_students st uid = ((200, StudentList r), st) \<and>
        set r = {s \<in> set (students st). vendorId s = uid} \<and>
        (\<forall>s. count_list r s = (if vendorId s = uid then count_list (students st) s else 0)))"
proof -
  have c: "count_list (filter P xs) s = (if P s then count_list xs s else 0)"
    for P and xs :: "student list" and s
    by (induction xs) auto
  show ?thesis
    by (simp add: srv_get_students_def p0_get_students_def Student_find_def c)
qed

theorem list_students_exactly_own_witness:
  "srv_get_students two_students_db 7 = ((200, StudentList [asha]), two_students_db) \<and>
   p0_get_students two_students_db 8 = ((200, StudentList [ravi]), two_students_db) \<and>
   vendorId asha = 7 \<and> vendorId ravi = 8"
proof -
  have v: "vendorId asha = 7" "vendorId ravi = 8"
    by (simp_all add: asha_def ravi_def)
  have s: "students two_students_db = [asha, ravi]"
    by (simp add: two_students_db_def)
  from list_students_exactly_own [of two_students_db 7]
       list_students_exactly_own [of two_students_db 8] v
  show ?thesis
    by (simp add: srv_get_students_def p0_get_students_def Student_find_def s)
qed

section \<open>Ownership\<close>

text \<open>The allow-list of \<open>Server.js\<close> does not name the owner.\<close>

lemma vendorId_not_allowed: "''vendorId'' \<notin> set allowedFields"
  by (simp add: allowedFields_def)

text \<open>Both update handlers leave the owners and the identifiers of the store as they were.\<close>

lemma srv_put_keeps_owner:
  assumes "distinct (map student_id (students st))"
  shows "map vendorId (students (snd (srv_put_students h st uid sid req))) =
           map vendorId (students st) \<and>
         map student_id (students (snd (srv_put_students h st uid sid req))) =
           map student_id (students st) \<and>
         next_oid (snd (srv_put_students h st uid sid req)) = next_oid st"
proof (cases "castObjectId h sid")
  case None
  then show ?thesis
    by (simp add: srv_put_students_def)
next
  case (Some i)
  show ?thesis
  proof (cases "Student_findOne st i uid")
    case None
    with Some show ?thesis
      by (simp add: srv_put_students_def)
  next
    case found: (Some found)
    then have f: "found \<in> set (students st)"
      by (simp add: Student_findOne_Some)
    obtain d where d: "srv_put_students h st uid sid req =
        (case Student_save st d of
           None \<Rightarrow> ((500, Msg ''message'' ''Error updating student''), st)
         | Some st' \<Rightarrow> ((200, StudentReply ''Student updated successfully'' (fst d)), st'))"
      "student_id (fst d) = student_id found" "vendorId (fst d) = vendorId found"
      using srv_put_found [OF Some found, of req] by blast
    show ?thesis
    proof (cases "Student_save st d")
      case None
      then show ?thesis
        by (simp add: d(1))
    next
      case saved: (Some st')
      from Student_save_keeps_owner [OF assms f d(2,3) saved] show ?thesis
        by (simp add: d(1) saved)
    qed
  qed
qed

lemma p0_put_keeps_owner:
  assumes "distinct (map student_id (students st))"
  shows "map vendorId (students (snd (p0_put_students h st uid sid req))) =
           map vendorId (students st) \<and>
         map student_id (students (snd (p0_put_students h st uid sid req))) =
           map student_id (students st) \<and>
         next_oid (snd (p0_put_students h st uid sid req)) = next_oid st"
proof (cases "castObjectId h sid")
  case None
  then show ?thesis
    by (simp add: p0_put_students_def)
next
  case (Some i)
  show ?thesis
  proof (cases "Student_findOne st i uid")
    case None
    with Some show ?thesis
      by (simp add: p0_put_students_def)
  next
    case found: (Some found)
    then have f: "found \<in> set (students st)"
      by (simp add: Student_findOne_Some)
    obtain d where d: "p0_put_students h st uid sid req =
        (case Student_save st d of
           None \<Rightarrow> ((500, Msg ''error'' ''Error updating student''), st)
         | Some st' \<Rightarrow> ((200, StudentReply ''Student updated successfully'' (fst d)), st'))"
      "student_id (fst d) = student_id found" "vendorId (fst d) = vendorId found"
      using p0_put_found [OF Some found, of req] by blast
    show ?thesis
    proof (cases "Student_save st d")
      case None
      then show ?thesis
        by (simp add: d(1))
    next
      case saved: (Some st')
      from Student_save_keeps_owner [OF assms f d(2,3) saved] show ?thesis
        by (simp add: d(1) saved)
    qed
  qed
qed

lemma srv_put_amounts_req:
  "fst (fst (srv_put_students utc_host two_students_db 7 asha_id amounts_req)) = 200"
  by (simp add: srv_put_students_def castObjectId_utc findOne_asha Let_def fold_allowedFields
      apply_field_def amounts_req_simps assign_paths castNumber_JNum Student_save_def)

text \<open>
  C10. For every UpdateStudent call, in a store whose identifiers are distinct, both
  files leave the owner of every student record as it was (and its identifier): the
  update writes only fields of its allow-list, and \<open>vendorId\<close> is not among them.
\<close>

theorem update_keeps_owner:
  assumes "distinct (map student_id (students st))"
  shows "map vendorId (students (snd (srv_put_students h st uid sid req))) =
           map vendorId (students st) \<and>
         map student_id (students (snd (srv_put_students h st uid sid req))) =
           map student_id (students st) \<and>
         map vendorId (students (snd (p0_put_students h st uid sid req))) =
           map vendorId (students st) \<and>
         map student_id (students (snd (p0_put_students h st uid sid req))) =
           map student_id (students st)"
  using srv_put_keeps_owner [OF assms, of h uid sid req]
        p0_put_keeps_owner [OF assms, of h uid sid req]
  by simp

theorem update_keeps_owner_witness:
  "distinct (map student_id (students two_students_db)) \<and>
   map vendorId (students two_students_db) = [7, 8] \<and>
   map vendorId
     (students (snd (srv_put_students utc_host two_students_db 7 asha_id amounts_req))) =
     [7, 8] \<and>
   map vendorId
     (students (snd (p0_put_students utc_host two_students_db 7 asha_id amounts_req))) =
     [7, 8] \<and>
   fst (fst (srv_put_students utc_host two_students_db 7 asha_id amounts_req)) = 200"
proof -
  have d: "distinct (map student_id (students two_students_db))"
    by (simp add: two_students_db_def asha_def ravi_def)
  have v: "map vendorId (students two_students_db) = [7, 8]"
    by (simp add: two_students_db_def asha_def ravi_def)
  from update_keeps_owner [OF d, of utc_host 7 asha_id amounts_req] d v srv_put_amounts_req
  show ?thesis
    by simp
qed

section \<open>The invariant of the store\<close>

text \<open>
  The identifiers of the students are distinct and below the next identifier in the
  empty store, and every handler of both files keeps them so: the hypothesis of distinct
  identifiers holds in every store that the handlers can reach.
\<close>

lemma wf_db_empty: "wf_db empty_db"
  by (simp add: wf_db_def empty_db_def)

lemma wf_db_Vendor_create: "wf_db st \<Longrightarrow> wf_db (Vendor_create st n r e p)"
  by (auto simp: wf_db_def Vendor_create_def)

lemma wf_db_Student_insert:
  assumes "wf_db st" and "student_id (fst d) = next_oid st"
    and "Student_insert st d = Some st'"
  shows "wf_db st'"
proof -
  from assms(3)
  have v: "st' = st\<lparr>students := students st @ [fst d], next_oid := next_oid st + 1\<rparr>"
    by (simp add: Student_insert_def split: if_splits)
  have n: "student_id (fst d) \<notin> student_id ` set (students st)"
    using assms(1,2) by (auto simp: wf_db_def)
  have l: "student_id s < next_oid st + 1" if "s \<in> set (students st)" for s
    using assms(1) that by (auto simp: wf_db_def less_Suc_eq)
  from assms(1,2) n l show ?thesis
    unfolding v by (auto simp: wf_db_def)
qed

lemma wf_db_ids:
  "wf_db st \<longleftrightarrow>
     distinct (map student_id (students st)) \<and>
     (\<forall>i\<in>set (map student_id (students st)). i < next_oid st)"
  by (auto simp: wf_db_def)

lemma distinct_map_remove1:
  "distinct (map f xs) \<Longrightarrow> distinct (map f (remove1 x xs))"
proof (induction xs)
  case Nil
  then show ?case by simp
next
  case (Cons a xs)
  have "set (remove1 x xs) \<subseteq> set xs"
    by (rule set_remove1_subset)
  with Cons show ?case by auto
qed

lemma wf_db_findOneAndDelete:
  assumes "wf_db st"
  shows "wf_db (snd (Student_findOneAndDelete st i uid))"
proof (cases "Student_findOne st i uid")
  case None
  with assms show ?thesis by (simp add: Student_findOneAndDelete_def)
next
  case (Some s)
  have "set (remove1 s (students st)) \<subseteq> set (students st)"
    by (rule set_remove1_subset)
  with assms Some show ?thesis
    by (auto simp: wf_db_def Student_findOneAndDelete_def distinct_map_remove1)
qed

lemma wf_db_srv_post_register: "wf_db st \<Longrightarrow> wf_db (snd (srv_post_register st req))"
  by (simp add: srv_post_register_def wf_db_Vendor_create split: option.splits)

lemma wf_db_p0_post_register: "wf_db st \<Longrightarrow> wf_db (snd (p0_post_register h st req))"
  by (simp add: p0_post_register_def wf_db_Vendor_create split: option.splits)

lemma wf_db_srv_post_studentsadd:
  assumes "wf_db st"
  shows "wf_db (snd (srv_post_studentsadd h st uid req))"
proof -
  let ?d = "assign h ''nextPaymentDate'' (nextPayment h (req ''endDate''))
              (new_Student h st uid req (js_sub h (req ''totalAmount'') (req ''paidAmount'')))"
  have i: "student_id (fst ?d) = next_oid st"
    by (simp add: assign_student_id new_Student_ids)
  show ?thesis
    using assms wf_db_Student_insert [OF assms i]
    by (simp add: srv_post_studentsadd_def Let_def split: option.splits)
qed

lemma wf_db_p0_post_students:
  assumes "wf_db st"
  shows "wf_db (snd (p0_post_students h st uid req))"
proof -
  let ?d = "new_Student h st uid req (js_sub h (req ''totalAmount'') (req ''paidAmount''))"
  have i: "student_id (fst ?d) = next_oid st"
    by (simp add: new_Student_ids)
  show ?thesis
    using assms wf_db_Student_insert [OF assms i]
    by (simp add: p0_post_students_def Let_def split: option.splits)
qed

lemma wf_db_put_students:
  assumes "wf_db st"
  shows "wf_db (snd (srv_put_students h st uid sid req))"
    and "wf_db (snd (p0_put_students h st uid sid req))"
proof -
  from assms have d: "distinct (map student_id (students st))"
    by (simp add: wf_db_def)
  from assms srv_put_keeps_owner [OF d, of h uid sid req]
  show "wf_db (snd (srv_put_students h st uid sid req))"
    unfolding wf_db_ids by simp
  from assms p0_put_keeps_owner [OF d, of h uid sid req]
  show "wf_db (snd (p0_put_students h st uid sid req))"
    unfolding wf_db_ids by simp
qed

lemma wf_db_delete_students:
  assumes "wf_db st"
  shows "wf_db (snd (srv_delete_students h st uid sid))"
    and "wf_db (snd (p0_delete_students h st uid sid))"
proof -
  show "wf_db (snd (srv_delete_students h st uid sid))"
  proof (cases "castObjectId h sid")
    case None
    with assms show ?thesis
      by (simp add: srv_delete_students_def)
  next
    case (Some i)
    from wf_db_findOneAndDelete [OF assms, of i uid] show ?thesis
      by (simp only: delete_students_store(1) [OF Some])
  qed
  show "wf_db (snd (p0_delete_students h st uid sid))"
  proof (cases "castObjectId h sid")
    case None
    with assms show ?thesis
      by (simp add: p0_delete_students_def)
  next
    case (Some i)
    from wf_db_findOneAndDelete [OF assms, of i uid] show ?thesis
      by (simp only: delete_students_store(2) [OF Some])
  qed
qed

end
